theory Spec2Isabelle
  imports Complex_Main "HOL-Library.Sublist"
begin

section \<open>Strings, JSON values and HTTP responses\<close>

text \<open>
  Go strings are byte sequences; they are modelled as \<open>string\<close> (a list of 8-bit
  characters). The functions below are the parts of Go's \<open>strings\<close> package the handlers
  call. \<open>strings.ToLower\<close> maps Unicode runes and is taken as a parameter of the handlers
  that call it (field \<open>ToLower\<close> of \<open>Lib\<close>); \<open>asciiToLower\<close> is its restriction to
  ASCII input.
\<close>

definition TrimPrefix :: "string \<Rightarrow> string \<Rightarrow> string" where
  "TrimPrefix s p = (if prefix p s then drop (length p) s else s)"

fun Contains :: "string \<Rightarrow> string \<Rightarrow> bool" where
  "Contains [] sub = (sub = [])"
| "Contains (c # s) sub = (prefix sub (c # s) \<or> Contains s sub)"

text \<open>\<open>strings.Split(s, sep)\<close> for a separator of one byte: \<open>Split s c\<close>.\<close>

fun Split :: "string \<Rightarrow> char \<Rightarrow> string list" where
  "Split [] sep = [[]]"
| "Split (c # s) sep =
     (if c = sep then [] # Split s sep
      else (case Split s sep of [] \<Rightarrow> [[c]] | p # ps \<Rightarrow> (c # p) # ps))"

definition asciiToLowerChar :: "char \<Rightarrow> char" where
  "asciiToLowerChar c =
     (let n = (of_char c :: nat)
      in if 65 \<le> n \<and> n \<le> 90 then char_of (n + 32) else c)"

definition asciiToLower :: "string \<Rightarrow> string" where
  "asciiToLower s = map asciiToLowerChar s"

text \<open>
  \<open>filepath.Clean\<close> and \<open>filepath.Join\<close> on a system whose separator is \<open>/\<close>: empty and
  \<open>.\<close> elements are dropped, an inner \<open>..\<close> removes the element before it, a leading
  \<open>..\<close> of a rooted path is dropped, and the empty result is \<open>.\<close>.
\<close>

fun cleanElems :: "bool \<Rightarrow> string list \<Rightarrow> string list \<Rightarrow> string list" where
  "cleanElems rooted out [] = rev out"
| "cleanElems rooted out (e # es) =
     (if e = [] \<or> e = ''.'' then cleanElems rooted out es
      else if e = ''..'' then
        (case out of
           [] \<Rightarrow> (if rooted then cleanElems rooted [] es else cleanElems rooted [e] es)
         | t # ts \<Rightarrow> (if t = ''..'' then cleanElems rooted (e # out) es
                     else cleanElems rooted ts es))
      else cleanElems rooted (e # out) es)"

fun joinWith :: "string \<Rightarrow> string list \<Rightarrow> string" where
  "joinWith sep [] = []"
| "joinWith sep [x] = x"
| "joinWith sep (x # y # ys) = x @ sep @ joinWith sep (y # ys)"

definition Clean :: "string \<Rightarrow> string" where
  "Clean p =
     (let rooted = prefix ''/'' p;
          body = joinWith ''/'' (cleanElems rooted [] (Split p (CHR ''/'')));
          r = (if rooted then ''/'' @ body else body)
      in if r = [] then ''.'' else r)"

definition Join :: "string list \<Rightarrow> string" where
  "Join elems =
     (let es = filter (\<lambda>e. e \<noteq> []) elems
      in if es = [] then [] else Clean (joinWith ''/'' es))"

datatype Json =
    JString string
  | JNumber real
  | JInt int
  | JBool bool
  | JNull
  | JArray "Json list"
  | JObject "(string \<times> Json) list"

text \<open>
  What a handler sends: a status code with a JSON body (\<open>writeJSON\<close>, gin's \<open>c.JSON\<close>),
  or the hand-over of the request to \<open>http.ServeFile\<close> for a path.
\<close>

datatype HttpResponse =
    WriteJSON nat Json
  | ServeFile string

definition StatusOK :: nat where "StatusOK = 200"
definition StatusCreated :: nat where "StatusCreated = 201"
definition StatusBadRequest :: nat where "StatusBadRequest = 400"
definition StatusUnauthorized :: nat where "StatusUnauthorized = 401"
definition StatusNotFound :: nat where "StatusNotFound = 404"
definition StatusMethodNotAllowed :: nat where "StatusMethodNotAllowed = 405"
definition StatusConflict :: nat where "StatusConflict = 409"
definition StatusInternalServerError :: nat where "StatusInternalServerError = 500"

lemmas Status_defs =
  StatusOK_def StatusCreated_def StatusBadRequest_def StatusUnauthorized_def
  StatusNotFound_def StatusMethodNotAllowed_def StatusConflict_def
  StatusInternalServerError_def

fun statusOf :: "HttpResponse \<Rightarrow> nat option" where
  "statusOf (WriteJSON code body) = Some code"
| "statusOf (ServeFile p) = None"

text \<open>
  main-pure.go: the \<open>Response\<close> struct, every field \<open>omitempty\<close>, and \<open>writeError\<close>, which
  sends a \<open>Response\<close> with only \<open>Error\<close> set.
\<close>

record Response =
  Status :: string
  Message :: string
  Error :: string
  Database :: string

definition omitempty :: "string \<Rightarrow> string \<Rightarrow> (string \<times> Json) list" where
  "omitempty key v = (if v = [] then [] else [(key, JString v)])"

definition Response_json :: "Response \<Rightarrow> Json" where
  "Response_json r =
     JObject (omitempty ''status'' (Status r) @ omitempty ''message'' (Message r)
              @ omitempty ''error'' (Error r) @ omitempty ''database'' (Database r))"

definition writeError :: "nat \<Rightarrow> string \<Rightarrow> HttpResponse" where
  "writeError statusCode message =
     WriteJSON statusCode
       (Response_json \<lparr>Status = [], Message = [], Error = message, Database = []\<rparr>)"

text \<open>gin: \<open>c.JSON(code, gin.H{"error": msg})\<close>.\<close>

definition ginError :: "nat \<Rightarrow> string \<Rightarrow> HttpResponse" where
  "ginError code msg = WriteJSON code (JObject [(''error'', JString msg)])"

section \<open>Static files (main-pure.go)\<close>

record Request =
  Method :: string
  URLPath :: string

datatype StatResult = StatOK | ErrNotExist | StatOtherError

definition staticHandler :: "(string \<Rightarrow> StatResult) \<Rightarrow> Request \<Rightarrow> HttpResponse" where
  "staticHandler os_Stat r =
     (if Method r \<noteq> ''GET'' then writeError StatusMethodNotAllowed ''Method not allowed''
      else
        let path = TrimPrefix (URLPath r) ''/static/'' in
        if path = [] then writeError StatusBadRequest ''File not found''
        else if Contains path ''..'' then writeError StatusBadRequest ''Invalid file path''
        else
          let fullPath = Join [''static'', path] in
          if os_Stat fullPath = ErrNotExist then writeError StatusNotFound ''File not found''
          else ServeFile fullPath)"

section \<open>Image upload to local disk (main-pure.go, and the gin revision)\<close>

definition MaxFileSize :: int where
  "MaxFileSize = 10 * 1024 * 1024"

definition UploadDir :: string where
  "UploadDir = ''static/uploads''"

definition allowedExtensions :: "string \<Rightarrow> bool" where
  "allowedExtensions ext =
     (case map_of [(''png'', True), (''jpg'', True), (''jpeg'', True), (''gif'', True)] ext of
        None \<Rightarrow> False
      | Some b \<Rightarrow> b)"

text \<open>
  Library functions the upload handlers call: \<open>strings.ToLower\<close>, and the formatting
  \<open>fmt.Sprintf("%.1f", float64(size)/(1024*1024))\<close> of a size in megabytes.
\<close>

record Lib =
  ToLower :: "string \<Rightarrow> string"
  FormatMB :: "int \<Rightarrow> string"

text \<open>
  \<open>filepath.Base\<close> on a system whose path separator is the slash: the last element of
  the path, after trailing slashes are taken off; \<open>.\<close> for the empty path and \<open>/\<close> for a
  path of slashes only.
\<close>

definition Base :: "string \<Rightarrow> string" where
  "Base path =
     (if path = [] then ''.''
      else
        let stripped = rev (dropWhile (\<lambda>c. c = CHR ''/'') (rev path));
            element = rev (takeWhile (\<lambda>c. c \<noteq> CHR ''/'') (rev stripped))
        in if element = [] then ''/'' else element)"

text \<open>
  A part of a \<open>multipart/form-data\<close> body as the client sent it: the \<open>name\<close> and the
  \<open>filename\<close> parameter of its \<open>Content-Disposition\<close> header, and its bytes.
  \<open>Part.FileName\<close> (\<open>mime/multipart\<close>, from Go 1.17 on; go.mod asks for Go 1.21) is
  empty for an empty \<open>filename\<close> parameter and the \<open>filepath.Base\<close> of the parameter
  otherwise.
\<close>

record Part =
  FormName :: string
  ClientFilename :: string
  Content :: string

definition Part_FileName :: "Part \<Rightarrow> string" where
  "Part_FileName p = (if ClientFilename p = [] then [] else Base (ClientFilename p))"

text \<open>
  \<open>multipart.FileHeader\<close>: the file name as \<open>Part.FileName\<close> gives it, the size and the
  bytes of the upload, and the temporary file that holds them (empty for a file kept in
  memory).
\<close>

record FileHeader =
  Filename :: string
  Size :: int
  Data :: string
  tmpfile :: string

text \<open>
  An upload request: the method, the parts of the body, the failure of the multipart
  reader, if it fails: the number of parts read before the failure and the error (a body
  that is not multipart, a malformed part, a message too large, a temporary file that
  cannot be written), and the error of \<open>r.ParseForm()\<close> on the query string, if it has
  one.
\<close>

record UploadRequest =
  UMethod :: string
  Parts :: "Part list"
  ParseErr :: "(nat \<times> string) option"
  ParseFormErr :: "string option"

text \<open>
  The disk: the files by path, what the operating system answers to the next
  \<open>os.Create\<close> (an error for some paths), \<open>io.Copy\<close> (an error after some bytes) and
  \<open>os.Open\<close> of the temporary file, and the name \<open>os.CreateTemp\<close> gives to the
  temporary file of the multipart reader.
\<close>

record Disk =
  Files :: "string \<Rightarrow> string option"
  CreateErr :: "string \<Rightarrow> string option"
  CopyErr :: "(nat \<times> string) option"
  TempName :: string
  OpenErr :: "string option"

definition os_Create :: "Disk \<Rightarrow> string \<Rightarrow> string + Disk" where
  "os_Create d path =
     (case CreateErr d path of
        Some e \<Rightarrow> Inl e
      | None \<Rightarrow> Inr (d\<lparr>Files := (Files d)(path \<mapsto> [])\<rparr>))"

definition io_Copy :: "Disk \<Rightarrow> string \<Rightarrow> string \<Rightarrow> string option \<times> Disk" where
  "io_Copy d path content =
     (case CopyErr d of
        Some (n, e) \<Rightarrow> (Some e, d\<lparr>Files := (Files d)(path \<mapsto> take n content)\<rparr>)
      | None \<Rightarrow> (None, d\<lparr>Files := (Files d)(path \<mapsto> content)\<rparr>))"

text \<open>
  The loop of \<open>multipart.Reader.ReadForm\<close> over the parts. A part without a form name is
  skipped, a part without a file name is a form value. A file part is kept in memory
  when its size is within what is left of \<open>maxFileMemoryBytes\<close>, which it then uses up;
  otherwise its bytes are written to the temporary file, which all such parts of a
  request share. The result is the file headers by form name, in the order of the parts,
  and the bytes of the temporary file, if one was created.
\<close>

fun readParts ::
  "int \<Rightarrow> string \<Rightarrow> Part list \<Rightarrow> (string \<times> FileHeader) list \<times> string option" where
  "readParts maxFileMemoryBytes tmp [] = ([], None)"
| "readParts maxFileMemoryBytes tmp (p # ps) =
     (if FormName p = [] \<or> Part_FileName p = [] then readParts maxFileMemoryBytes tmp ps
      else if int (length (Content p)) > maxFileMemoryBytes then
        (case readParts maxFileMemoryBytes tmp ps of
           (files, file) \<Rightarrow>
             ((FormName p,
               \<lparr>Filename = Part_FileName p, Size = int (length (Content p)),
                Data = Content p, tmpfile = tmp\<rparr>) # files,
              Some (Content p @ (case file of None \<Rightarrow> [] | Some written \<Rightarrow> written))))
      else
        (case readParts (maxFileMemoryBytes - int (length (Content p))) tmp ps of
           (files, file) \<Rightarrow>
             ((FormName p,
               \<lparr>Filename = Part_FileName p, Size = int (length (Content p)),
                Data = Content p, tmpfile = []\<rparr>) # files,
              file)))"

text \<open>
  \<open>r.ParseMultipartForm(maxMemory)\<close>: the form of the request, and the disk with the
  temporary file on it. When the reader fails, it removes the temporary file it had
  created for the parts read so far. An error of \<open>r.ParseForm()\<close> is returned once the
  form has been read, with the temporary file in place. (After the handler has returned,
  the server removes the temporary file of a form that was read; this is outside the
  handlers.)
\<close>

definition ParseMultipartForm ::
  "int \<Rightarrow> Disk \<Rightarrow> UploadRequest \<Rightarrow> (string + (string \<times> FileHeader) list) \<times> Disk" where
  "ParseMultipartForm maxMemory d r =
     (case ParseErr r of
        None \<Rightarrow>
          (case readParts maxMemory (TempName d) (Parts r) of
             (files, file) \<Rightarrow>
               let d0 = (case file of
                           None \<Rightarrow> d
                         | Some written \<Rightarrow> d\<lparr>Files := (Files d)(TempName d \<mapsto> written)\<rparr>)
               in case ParseFormErr r of
                    Some parseFormErr \<Rightarrow> (Inl parseFormErr, d0)
                  | None \<Rightarrow> (Inr files, d0))
      | Some (k, err) \<Rightarrow>
          (case readParts maxMemory (TempName d) (take k (Parts r)) of
             (files, None) \<Rightarrow> (Inl err, d)
           | (files, Some written) \<Rightarrow>
               (Inl err, d\<lparr>Files := (Files d)(TempName d := None)\<rparr>)))"

text \<open>
  \<open>r.FormFile(key)\<close> on a parsed form: the first file of that form name, opened. Opening
  a file kept in memory cannot fail; opening the temporary file can.
\<close>

definition Request_FormFile ::
  "Disk \<Rightarrow> (string \<times> FileHeader) list \<Rightarrow> string \<Rightarrow> string + FileHeader" where
  "Request_FormFile d form key =
     (case map_of form key of
        None \<Rightarrow> Inl ''http: no such file''
      | Some fh \<Rightarrow>
          if tmpfile fh = [] then Inr fh
          else (case OpenErr d of Some e \<Rightarrow> Inl e | None \<Rightarrow> Inr fh))"

definition uploadHandler :: "Lib \<Rightarrow> Disk \<Rightarrow> UploadRequest \<Rightarrow> HttpResponse \<times> Disk" where
  "uploadHandler lib d r =
     (if UMethod r \<noteq> ''POST'' then (writeError StatusMethodNotAllowed ''Method not allowed'', d)
      else case ParseMultipartForm MaxFileSize d r of
        (Inl err, d0) \<Rightarrow> (writeError StatusBadRequest ''File terlalu besar. Maksimal 10MB'', d0)
      | (Inr form, d0) \<Rightarrow>
      (case Request_FormFile d0 form ''image'' of
        Inl err \<Rightarrow> (writeError StatusBadRequest ''No file part'', d0)
      | Inr header \<Rightarrow>
          if Size header > MaxFileSize
            then (writeError StatusBadRequest
                    (''File terlalu besar. Maksimal 10MB (ukuran file: ''
                       @ FormatMB lib (Size header) @ ''MB)''), d0)
          else
            let filename = Filename header;
                parts = Split filename (CHR ''.'') in
            if length parts < 2 then (writeError StatusBadRequest ''File not allowed'', d0)
            else
              let ext = ToLower lib (last parts) in
              if \<not> allowedExtensions ext then (writeError StatusBadRequest ''File not allowed'', d0)
              else
                let filepath = UploadDir @ ''/'' @ filename in
                case os_Create d0 filepath of
                  Inl e \<Rightarrow> (writeError StatusInternalServerError (''Error saving file: '' @ e), d0)
                | Inr d1 \<Rightarrow>
                    (case io_Copy d1 filepath (Data header) of
                       (Some e, d2) \<Rightarrow>
                         (writeError StatusInternalServerError (''Error saving file: '' @ e), d2)
                     | (None, d2) \<Rightarrow>
                         (WriteJSON StatusCreated
                            (JObject [(''image_url'', JString (''/static/uploads/'' @ filename)),
                                      (''file_size'',
                                         JString (FormatMB lib (Size header) @ ''MB''))]),
                          d2))))"

text \<open>
  gin's \<open>c.FormFile(name)\<close> parses the form with the engine's \<open>MaxMultipartMemory\<close>,
  which no revision changes from its default of 32 MiB, and returns the header of the
  first file of that name. \<open>c.SaveUploadedFile(file, dst)\<close> opens the upload, creates the
  destination (\<open>CreateErr\<close> stands for the failure to make its directory as well), copies
  the upload into it and reports the first error.
\<close>

definition defaultMultipartMemory :: int where
  "defaultMultipartMemory = 32 * 2 ^ 20"

definition Context_FormFile ::
  "Disk \<Rightarrow> UploadRequest \<Rightarrow> string \<Rightarrow> (string + FileHeader) \<times> Disk" where
  "Context_FormFile d r name =
     (case ParseMultipartForm defaultMultipartMemory d r of
        (Inl err, d0) \<Rightarrow> (Inl err, d0)
      | (Inr form, d0) \<Rightarrow> (Request_FormFile d0 form name, d0))"

definition SaveUploadedFile :: "Disk \<Rightarrow> FileHeader \<Rightarrow> string \<Rightarrow> string option \<times> Disk" where
  "SaveUploadedFile d file dst =
     (if tmpfile file \<noteq> [] \<and> OpenErr d \<noteq> None then (OpenErr d, d)
      else case os_Create d dst of
        Inl e \<Rightarrow> (Some e, d)
      | Inr d1 \<Rightarrow> io_Copy d1 dst (Data file))"

text \<open>\<open>uploadImage\<close> of the gin revision that keeps the original file name.\<close>

definition uploadImage :: "Lib \<Rightarrow> Disk \<Rightarrow> UploadRequest \<Rightarrow> HttpResponse \<times> Disk" where
  "uploadImage lib d r =
     (case Context_FormFile d r ''image'' of
        (Inl err, d0) \<Rightarrow> (ginError StatusBadRequest ''No file part'', d0)
      | (Inr file, d0) \<Rightarrow>
          if Size file > MaxFileSize
            then (ginError StatusBadRequest
                    (''File terlalu besar. Maksimal 10MB (ukuran file: ''
                       @ FormatMB lib (Size file) @ ''MB)''), d0)
          else
            let filename = Filename file;
                parts = Split filename (CHR ''.'') in
            if length parts < 2 then (ginError StatusBadRequest ''File not allowed'', d0)
            else
              let ext = ToLower lib (last parts) in
              if \<not> allowedExtensions ext then (ginError StatusBadRequest ''File not allowed'', d0)
              else
                let filepath = UploadDir @ ''/'' @ filename in
                case SaveUploadedFile d0 file filepath of
                  (Some e, d1) \<Rightarrow>
                    (ginError StatusInternalServerError (''Error saving file: '' @ e), d1)
                | (None, d1) \<Rightarrow>
                    (WriteJSON StatusCreated
                       (JObject [(''image_url'', JString (''/static/uploads/'' @ filename)),
                                 (''file_size'', JString (FormatMB lib (Size file) @ ''MB''))]),
                     d1))"

section \<open>The document database\<close>

text \<open>
  A collection is the list of its documents in natural order. Every document has an
  \<open>_id\<close>, a \<open>primitive.ObjectID\<close>, here identified with its 24-digit hexadecimal form
  (\<open>Hex\<close>). The Go structs are records that extend \<open>Doc\<close>; their other fields keep
  the names of the source, qualified by the struct where two structs share a name.
  \<open>float64\<close> is idealised as \<open>real\<close>, \<open>time.Time\<close> is the instant in nanoseconds, and
  in \<open>Json\<close> an instant is shown as \<open>JInt\<close> and bytes are shown as they are.
\<close>

datatype ObjectID = ObjectID (Hex: string)

definition NilObjectID :: ObjectID where
  "NilObjectID = ObjectID ''000000000000000000000000''"

record Doc =
  ID :: ObjectID

datatype DBError = ErrNoDocuments | DriverError string

text \<open>
  Each driver call takes the failure the driver reports for it (\<open>None\<close>: the call goes
  through). \<open>FindOne\<close> decodes the first document that matches the filter. \<open>InsertOne\<close>
  stores the document under its own \<open>_id\<close>, or under a generated one when the field is
  the zero value (\<open>bson:"_id,omitempty"\<close>); the server refuses a second document with
  the same \<open>_id\<close>.
\<close>

definition FindOne :: "string option \<Rightarrow> ('a \<Rightarrow> bool) \<Rightarrow> 'a list \<Rightarrow> DBError + 'a" where
  "FindOne fail matches coll =
     (case fail of
        Some e \<Rightarrow> Inl (DriverError e)
      | None \<Rightarrow> (case find matches coll of None \<Rightarrow> Inl ErrNoDocuments | Some d \<Rightarrow> Inr d))"

definition InsertOne ::
  "string option \<Rightarrow> ObjectID \<Rightarrow> 'a Doc_scheme list \<Rightarrow> 'a Doc_scheme
     \<Rightarrow> string + (ObjectID \<times> 'a Doc_scheme list)" where
  "InsertOne fail generated coll doc =
     (case fail of
        Some e \<Rightarrow> Inl e
      | None \<Rightarrow>
          let i = (if ID doc = NilObjectID then generated else ID doc) in
          if i \<in> set (map ID coll) then Inl ''E11000 duplicate key error collection''
          else Inr (i, coll @ [doc\<lparr>ID := i\<rparr>]))"

text \<open>
  The record of the driver calls of a request: each call with the context it was given
  (\<open>context.WithTimeout\<close> of so many seconds, or \<open>context.Background()\<close>), the
  collection and the operation. A call that takes the record returns it with its own
  entry at the end.
\<close>

datatype Ctx = WithTimeout nat | Background

datatype DBCall = DBCall Ctx string string

definition CountDocuments ::
  "Ctx \<Rightarrow> string \<Rightarrow> string option \<Rightarrow> 'a list \<Rightarrow> DBCall list
     \<Rightarrow> (string + int) \<times> DBCall list" where
  "CountDocuments ctx name fail coll calls =
     ((case fail of Some e \<Rightarrow> Inl e | None \<Rightarrow> Inr (int (length coll))),
      calls @ [DBCall ctx name ''CountDocuments''])"

definition InsertOne_ctx ::
  "Ctx \<Rightarrow> string \<Rightarrow> string option \<Rightarrow> ObjectID \<Rightarrow> 'a Doc_scheme list \<Rightarrow> 'a Doc_scheme
     \<Rightarrow> DBCall list \<Rightarrow> (string + (ObjectID \<times> 'a Doc_scheme list)) \<times> DBCall list" where
  "InsertOne_ctx ctx name fail generated coll doc calls =
     (InsertOne fail generated coll doc, calls @ [DBCall ctx name ''InsertOne''])"

text \<open>
  What the environment supplies to one request: the successive readings of the clock
  (\<open>time.Now()\<close>), the \<open>_id\<close> the driver generates, the salt \<open>bcrypt\<close> draws, and the
  failure of each driver call, numbered in the order of the handler's text.
\<close>

record Env =
  Clock :: "nat \<Rightarrow> int"
  NewID :: ObjectID
  Salt :: string
  DBErr :: "nat \<Rightarrow> string option"

text \<open>
  Request bodies: what the JSON decoder makes of the body, either an error or the
  decoded struct (absent keys are zero values). gin's \<open>ShouldBindJSON\<close> then checks the
  fields tagged \<open>binding:"required"\<close>: such a field must not be the zero value of its
  type. \<open>required\<close> lists, for a struct value, each tagged field with whether it is zero.
\<close>

datatype 'a Body = Malformed string | Decoded 'a

definition requiredErrorText :: "string \<Rightarrow> string \<Rightarrow> string" where
  "requiredErrorText struct field =
     ''Key: '' @ [CHR 0x27] @ struct @ ''.'' @ field @ [CHR 0x27]
       @ '' Error:Field validation for '' @ [CHR 0x27] @ field @ [CHR 0x27]
       @ '' failed on the '' @ [CHR 0x27] @ ''required'' @ [CHR 0x27] @ '' tag''"

definition ShouldBindJSON ::
  "string \<Rightarrow> ('a \<Rightarrow> (string \<times> bool) list) \<Rightarrow> 'a Body \<Rightarrow> string + 'a" where
  "ShouldBindJSON struct required body =
     (case body of
        Malformed e \<Rightarrow> Inl e
      | Decoded x \<Rightarrow>
          let failed = map fst (filter snd (required x)) in
          if failed = [] then Inr x
          else Inl (joinWith [CHR 0x0A] (map (requiredErrorText struct) failed)))"

section \<open>Structs of main.go, models and part 006\<close>

record Product = Doc +
  Name :: string
  Price :: real
  Description :: string
  Category :: string
  Image :: string
  ImageURL :: string
  Stock :: int
  CreatedAt :: int
  UpdatedAt :: int
  ImageData :: string
  ImageBase64 :: string

record Admin = Doc +
  Username :: string
  Email :: string
  Password :: string
  CreatedAt :: int

record LoginRequest =
  Username :: string
  Password :: string

record RegisterRequest =
  Username :: string
  Email :: string
  Password :: string

record Stats =
  TotalProducts :: int
  TotalAdmins :: int
  TotalValue :: real

record DB =
  products :: "Product list"
  admins :: "Admin list"

definition LoginRequest_required :: "LoginRequest \<Rightarrow> (string \<times> bool) list" where
  "LoginRequest_required r =
     [(''Username'', LoginRequest.Username r = []), (''Password'', LoginRequest.Password r = [])]"

definition RegisterRequest_required :: "RegisterRequest \<Rightarrow> (string \<times> bool) list" where
  "RegisterRequest_required r =
     [(''Username'', RegisterRequest.Username r = []), (''Email'', RegisterRequest.Email r = []),
      (''Password'', RegisterRequest.Password r = [])]"

definition Product_json :: "Product \<Rightarrow> Json" where
  "Product_json p =
     JObject ([(''id'', JString (Hex (ID p))),
               (''name'', JString (Product.Name p)),
               (''price'', JNumber (Product.Price p)),
               (''description'', JString (Product.Description p)),
               (''category'', JString (Category p)),
               (''image'', JString (Image p))]
              @ omitempty ''image_url'' (Product.ImageURL p)
              @ [(''stock'', JInt (Stock p)),
                 (''created_at'', JInt (Product.CreatedAt p)),
                 (''updated_at'', JInt (UpdatedAt p))]
              @ omitempty ''image_data'' (ImageData p)
              @ omitempty ''image_base64'' (ImageBase64 p))"

definition Admin_json :: "Admin \<Rightarrow> Json" where
  "Admin_json a =
     JObject [(''id'', JString (Hex (ID a))),
              (''username'', JString (Admin.Username a)),
              (''email'', JString (Admin.Email a)),
              (''password'', JString (Admin.Password a)),
              (''created_at'', JInt (Admin.CreatedAt a))]"

definition Stats_json :: "Stats \<Rightarrow> Json" where
  "Stats_json s =
     JObject [(''total_products'', JInt (TotalProducts s)),
              (''total_admins'', JInt (TotalAdmins s)),
              (''total_value'', JNumber (TotalValue s))]"

text \<open>
  The libraries behind authentication, as parameters: \<open>bcrypt.GenerateFromPassword\<close>
  (from the salt it draws and the password; \<open>None\<close> is its error),
  \<open>bcrypt.CompareHashAndPassword\<close> (true when it returns \<open>nil\<close>), and
  \<open>paseto.NewV2().Encrypt\<close> (key, payload, footer; \<open>None\<close> is its error).
\<close>

record JSONToken =
  Subject :: string
  IssuedAt :: int
  Expiration :: int

record Crypto =
  GenerateFromPassword :: "string \<Rightarrow> string \<Rightarrow> string option"
  CompareHashAndPassword :: "string \<Rightarrow> string \<Rightarrow> bool"
  Encrypt :: "string \<Rightarrow> JSONToken \<Rightarrow> string \<Rightarrow> string option"

definition Hour :: int where
  "Hour = 3600 * 1000000000"

text \<open>
  \<open>init\<close> of main.go and \<open>config.Load\<close>: the server only starts with a
  \<open>PASETO_SECRET_KEY\<close> of 32 bytes (\<open>log.Fatal\<close> otherwise, here \<open>None\<close>).
\<close>

definition loadPasetoSecretKey :: "string \<Rightarrow> string option" where
  "loadPasetoSecretKey key = (if length key \<noteq> 32 then None else Some key)"

section \<open>Handlers of main.go (gin, bcrypt, Paseto)\<close>

text \<open>
  A handler takes the state it reads and the decoded request, and returns the response
  with the state it leaves. \<open>createProduct\<close>: \<open>cld\<close> is the Cloudinary client when one is
  configured; its upload returns the secure URL and the public id, or fails.
\<close>

definition createProduct ::
  "(string \<Rightarrow> string + (string \<times> string)) option \<Rightarrow> Env \<Rightarrow> DB \<Rightarrow> Product Body
     \<Rightarrow> HttpResponse \<times> DB" where
  "createProduct cld env db body =
     (case ShouldBindJSON ''Product'' (\<lambda>p. []) body of
        Inl e \<Rightarrow> (ginError StatusBadRequest e, db)
      | Inr product \<Rightarrow>
          let uploaded =
                (case cld of
                   Some upload \<Rightarrow>
                     if ImageBase64 product \<noteq> [] then
                       let base64Data = ImageBase64 product;
                           idx = length ''data:image/jpeg;base64,'';
                           base64Data =
                             (if length base64Data > idx
                                 \<and> take idx base64Data = ''data:image/jpeg;base64,''
                              then drop idx base64Data else base64Data)
                       in (case upload (''data:image/jpeg;base64,'' @ base64Data) of
                             Inl e \<Rightarrow> Inl e
                           | Inr (secureURL, publicID) \<Rightarrow>
                               Inr (product\<lparr>Product.ImageURL := secureURL, Image := publicID\<rparr>))
                     else Inr product
                 | None \<Rightarrow> Inr product)
          in case uploaded of
               Inl e \<Rightarrow> (ginError StatusInternalServerError ''Gagal upload gambar ke Cloudinary'', db)
             | Inr product \<Rightarrow>
                 let product = product\<lparr>Product.CreatedAt := Clock env 0, UpdatedAt := Clock env 1,
                                        ImageBase64 := [], ImageData := []\<rparr>
                 in case InsertOne (DBErr env 0) (NewID env) (products db) product of
                      Inl e \<Rightarrow> (ginError StatusInternalServerError e, db)
                    | Inr (insertedID, coll) \<Rightarrow>
                        (WriteJSON StatusCreated
                           (JObject [(''product'', Product_json (product\<lparr>ID := insertedID\<rparr>))]),
                         db\<lparr>products := coll\<rparr>))"

text \<open>
  \<open>getAdmins\<close>, \<open>createAdmin\<close>: the same text in main.go and in part 006;
  \<open>Controller.GetAdmins\<close> has the statements of \<open>getAdmins\<close>.
\<close>

definition Find :: "string option \<Rightarrow> 'a list \<Rightarrow> string + 'a list" where
  "Find fail coll = (case fail of Some e \<Rightarrow> Inl e | None \<Rightarrow> Inr coll)"

definition cursor_All :: "string option \<Rightarrow> 'a list \<Rightarrow> string + 'a list" where
  "cursor_All fail cursor = (case fail of Some e \<Rightarrow> Inl e | None \<Rightarrow> Inr cursor)"

definition getAdmins :: "Env \<Rightarrow> DB \<Rightarrow> HttpResponse" where
  "getAdmins env db =
     (case Find (DBErr env 0) (admins db) of
        Inl e \<Rightarrow> ginError StatusInternalServerError e
      | Inr cursor \<Rightarrow>
          (case cursor_All (DBErr env 1) cursor of
             Inl e \<Rightarrow> ginError StatusInternalServerError e
           | Inr adminList \<Rightarrow>
               WriteJSON StatusOK
                 (JObject [(''admins'',
                    JArray (map (\<lambda>a. Admin_json (a\<lparr>Admin.Password := []\<rparr>)) adminList))])))"

definition Controller_GetAdmins :: "Env \<Rightarrow> DB \<Rightarrow> HttpResponse" where
  "Controller_GetAdmins = getAdmins"

definition createAdmin :: "Env \<Rightarrow> DB \<Rightarrow> Admin Body \<Rightarrow> HttpResponse \<times> DB" where
  "createAdmin env db body =
     (case ShouldBindJSON ''Admin'' (\<lambda>a. []) body of
        Inl e \<Rightarrow> (ginError StatusBadRequest e, db)
      | Inr admin \<Rightarrow>
          let admin = admin\<lparr>Admin.CreatedAt := Clock env 0\<rparr> in
          case InsertOne (DBErr env 0) (NewID env) (admins db) admin of
            Inl e \<Rightarrow> (ginError StatusInternalServerError e, db)
          | Inr (insertedID, coll) \<Rightarrow>
              (WriteJSON StatusCreated
                 (JObject [(''admin'',
                    Admin_json (admin\<lparr>ID := insertedID, Admin.Password := []\<rparr>))]),
               db\<lparr>admins := coll\<rparr>))"

definition login ::
  "Crypto \<Rightarrow> string \<Rightarrow> Env \<Rightarrow> DB \<Rightarrow> LoginRequest Body \<Rightarrow> HttpResponse \<times> DB" where
  "login crypto pasetoSecretKey env db body =
     (case ShouldBindJSON ''LoginRequest'' LoginRequest_required body of
        Inl e \<Rightarrow> (ginError StatusBadRequest e, db)
      | Inr req \<Rightarrow>
          (case FindOne (DBErr env 0) (\<lambda>a. Admin.Username a = LoginRequest.Username req)
                  (admins db) of
             Inl ErrNoDocuments \<Rightarrow> (ginError StatusUnauthorized ''Invalid credentials'', db)
           | Inl (DriverError e) \<Rightarrow> (ginError StatusInternalServerError e, db)
           | Inr admin \<Rightarrow>
               if \<not> CompareHashAndPassword crypto (Admin.Password admin) (LoginRequest.Password req)
               then (ginError StatusUnauthorized ''Invalid credentials'', db)
               else
                 let now = Clock env 0;
                     exp = now + 24 * Hour;
                     jsonToken = \<lparr>Subject = Hex (ID admin), IssuedAt = now, Expiration = exp\<rparr>;
                     footer = ''pitipaw-admin''
                 in case Encrypt crypto pasetoSecretKey jsonToken footer of
                      None \<Rightarrow> (ginError StatusInternalServerError ''Failed to generate token'', db)
                    | Some token \<Rightarrow>
                        (WriteJSON StatusOK
                           (JObject [(''message'', JString ''Login successful''),
                                     (''admin'', Admin_json (admin\<lparr>Admin.Password := []\<rparr>)),
                                     (''token'', JString token)]),
                         db)))"

definition register :: "Crypto \<Rightarrow> Env \<Rightarrow> DB \<Rightarrow> RegisterRequest Body \<Rightarrow> HttpResponse \<times> DB" where
  "register crypto env db body =
     (case ShouldBindJSON ''RegisterRequest'' RegisterRequest_required body of
        Inl e \<Rightarrow> (ginError StatusBadRequest e, db)
      | Inr req \<Rightarrow>
          (case FindOne (DBErr env 0) (\<lambda>a. Admin.Username a = RegisterRequest.Username req)
                  (admins db) of
             Inr existingAdmin \<Rightarrow> (ginError StatusConflict ''Username already exists'', db)
           | Inl err \<Rightarrow>
               (case GenerateFromPassword crypto (Salt env) (RegisterRequest.Password req) of
                  None \<Rightarrow> (ginError StatusInternalServerError ''Failed to hash password'', db)
                | Some hashedPassword \<Rightarrow>
                    let admin = \<lparr>ID = NilObjectID,
                                 Admin.Username = RegisterRequest.Username req,
                                 Admin.Email = RegisterRequest.Email req,
                                 Admin.Password = hashedPassword,
                                 Admin.CreatedAt = Clock env 0\<rparr>
                    in case InsertOne (DBErr env 1) (NewID env) (admins db) admin of
                         Inl e \<Rightarrow> (ginError StatusInternalServerError e, db)
                       | Inr (insertedID, coll) \<Rightarrow>
                           (WriteJSON StatusCreated
                              (JObject [(''message'', JString ''Registration successful''),
                                        (''admin'',
                                           Admin_json (admin\<lparr>ID := insertedID,
                                                              Admin.Password := []\<rparr>))]),
                            db\<lparr>admins := coll\<rparr>))))"

text \<open>
  \<open>uploadFile\<close> stores the upload as a product document. \<open>maxFileSize\<close> is the
  configured limit (\<open>MAX_FILE_SIZE\<close>, 10485760 when unset); \<open>openErr\<close> and \<open>readErr\<close>
  are the failures of the handler's own \<open>file.Open()\<close> and of \<open>io.ReadAll\<close>.
\<close>

definition defaultMaxFileSize :: int where
  "defaultMaxFileSize = 10485760"

definition uploadFile ::
  "int \<Rightarrow> string option \<Rightarrow> string option \<Rightarrow> Env \<Rightarrow> Disk \<Rightarrow> DB \<Rightarrow> UploadRequest
     \<Rightarrow> HttpResponse \<times> Disk \<times> DB \<times> DBCall list" where
  "uploadFile maxFileSize openErr readErr env d db r =
     (case Context_FormFile d r ''file'' of
        (Inl err, d0) \<Rightarrow> (ginError StatusBadRequest ''No file uploaded'', d0, db, [])
      | (Inr file, d0) \<Rightarrow>
          if Size file > maxFileSize
            then (ginError StatusBadRequest ''File too large'', d0, db, [])
          else case openErr of
            Some e \<Rightarrow> (ginError StatusInternalServerError e, d0, db, [])
          | None \<Rightarrow>
              (case readErr of
                 Some e \<Rightarrow> (ginError StatusInternalServerError e, d0, db, [])
               | None \<Rightarrow>
                   let fileBytes = Data file;
                       product = \<lparr>ID = NilObjectID, Product.Name = Filename file,
                                  Product.Price = 0, Product.Description = [], Category = [],
                                  Image = Filename file, Product.ImageURL = [], Stock = 0,
                                  Product.CreatedAt = Clock env 0, UpdatedAt = Clock env 1,
                                  ImageData = fileBytes, ImageBase64 = []\<rparr>
                   in case InsertOne_ctx Background ''products'' (DBErr env 0) (NewID env)
                             (products db) product [] of
                        (Inl e, calls) \<Rightarrow> (ginError StatusInternalServerError e, d0, db, calls)
                      | (Inr (insertedID, coll), calls) \<Rightarrow>
                          (WriteJSON StatusOK
                             (JObject [(''message'',
                                          JString ''File uploaded and saved to database successfully''),
                                       (''id'', JString (Hex insertedID)),
                                       (''filename'', JString (Filename file))]),
                           d0, db\<lparr>products := coll\<rparr>, calls)))"

section \<open>Statistics (main.go, part 006 and the controller)\<close>

text \<open>
  The aggregation the handlers send is one \<open>$group\<close> stage with \<open>_id\<close> null and
  \<open>total\<close> the \<open>$sum\<close> of \<open>$multiply [$price, $stock]\<close>: no document for an empty
  collection, one document otherwise. \<open>price\<close> is stored as a double and \<open>stock\<close> as an
  integer, so \<open>total\<close> is a double. \<open>Aggregate\<close> and the calls on its cursor add
  themselves to the record of driver calls.
\<close>

datatype Bson = BDouble real | BInt int | BString string | BNull

definition Aggregate ::
  "Ctx \<Rightarrow> string \<Rightarrow> string option \<Rightarrow> Product list \<Rightarrow> DBCall list
     \<Rightarrow> (string + (string \<times> Bson) list list) \<times> DBCall list" where
  "Aggregate ctx name fail coll calls =
     ((case fail of
         Some e \<Rightarrow> Inl e
       | None \<Rightarrow>
           Inr (if coll = [] then []
                else [[(''_id'', BNull),
                       (''total'',
                          BDouble (\<Sum>p\<leftarrow>coll. Product.Price p * real_of_int (Stock p)))]])),
      calls @ [DBCall ctx name ''Aggregate''])"

text \<open>
  \<open>cursor.Next\<close> moves to the next document and says whether there was one;
  \<open>cursor.All\<close> reads what is left; \<open>cursor.Close\<close> is deferred to the end of the
  handler and its error is dropped. \<open>Controller.GetStats\<close> calls \<open>cursor.All\<close> after
  \<open>cursor.Next\<close>. The documentation of the driver says that \<open>All\<close> leaves out the
  documents the cursor has passed; whether it does is the parameter \<open>rereads\<close> (false: as
  documented, true: \<open>All\<close> returns the documents of the current batch again).
\<close>

definition cursor_Next ::
  "Ctx \<Rightarrow> string \<Rightarrow> string option \<Rightarrow> 'a list \<Rightarrow> DBCall list
     \<Rightarrow> (bool \<times> 'a list) \<times> DBCall list" where
  "cursor_Next ctx name fail cursor calls =
     ((case fail of
         Some e \<Rightarrow> (False, cursor)
       | None \<Rightarrow> (case cursor of [] \<Rightarrow> (False, []) | d # ds \<Rightarrow> (True, ds))),
      calls @ [DBCall ctx name ''cursor.Next''])"

definition cursor_All_ctx ::
  "Ctx \<Rightarrow> string \<Rightarrow> string option \<Rightarrow> 'a list \<Rightarrow> DBCall list
     \<Rightarrow> (string + 'a list) \<times> DBCall list" where
  "cursor_All_ctx ctx name fail cursor calls =
     (cursor_All fail cursor, calls @ [DBCall ctx name ''cursor.All''])"

definition cursor_Close :: "Ctx \<Rightarrow> string \<Rightarrow> DBCall list \<Rightarrow> DBCall list" where
  "cursor_Close ctx name calls = calls @ [DBCall ctx name ''cursor.Close'']"

definition totalOf :: "(string \<times> Bson) list list \<Rightarrow> real" where
  "totalOf result =
     (case result of
        [] \<Rightarrow> 0
      | doc # docs \<Rightarrow> (case map_of doc ''total'' of Some (BDouble val) \<Rightarrow> val | _ \<Rightarrow> 0))"

definition getStats :: "Env \<Rightarrow> DB \<Rightarrow> HttpResponse \<times> DBCall list" where
  "getStats env db =
     (let ctx = WithTimeout 10 in
      case CountDocuments ctx ''products'' (DBErr env 0) (products db) [] of
        (counted, calls) \<Rightarrow>
      let totalProducts = (case counted of Inl err \<Rightarrow> 0 | Inr n \<Rightarrow> n) in
      case CountDocuments ctx ''admins'' (DBErr env 1) (admins db) calls of
        (counted, calls) \<Rightarrow>
      let totalAdmins = (case counted of Inl err \<Rightarrow> 0 | Inr n \<Rightarrow> n) in
      case Aggregate ctx ''products'' (DBErr env 2) (products db) calls of
        (Inl err, calls) \<Rightarrow> (ginError StatusInternalServerError err, calls)
      | (Inr cursor, calls) \<Rightarrow>
          (case cursor_All_ctx ctx ''products'' (DBErr env 3) cursor calls of
             (read, calls) \<Rightarrow>
               let totalValue = (case read of Inl err \<Rightarrow> 0 | Inr result \<Rightarrow> totalOf result);
                   stats = \<lparr>TotalProducts = totalProducts, TotalAdmins = totalAdmins,
                            TotalValue = totalValue\<rparr>
               in (WriteJSON StatusOK (JObject [(''stats'', Stats_json stats)]),
                   cursor_Close ctx ''products'' calls)))"

definition Controller_GetStats :: "bool \<Rightarrow> Env \<Rightarrow> DB \<Rightarrow> HttpResponse \<times> DBCall list" where
  "Controller_GetStats rereads env db =
     (let ctx = WithTimeout 10 in
      case CountDocuments ctx ''products'' (DBErr env 0) (products db) [] of
        (counted, calls) \<Rightarrow>
      let totalProducts = (case counted of Inl err \<Rightarrow> 0 | Inr n \<Rightarrow> n) in
      case CountDocuments ctx ''admins'' (DBErr env 1) (admins db) calls of
        (counted, calls) \<Rightarrow>
      let totalAdmins = (case counted of Inl err \<Rightarrow> 0 | Inr n \<Rightarrow> n) in
      case Aggregate ctx ''products'' (DBErr env 2) (products db) calls of
        (Inl err, calls) \<Rightarrow> (ginError StatusInternalServerError err, calls)
      | (Inr cursor, calls) \<Rightarrow>
          (case
             (case cursor_Next ctx ''products'' (DBErr env 3) cursor calls of
                ((True, rest), calls) \<Rightarrow>
                  (case cursor_All_ctx ctx ''products'' (DBErr env 4)
                          (if rereads then cursor else rest) calls of
                     (Inl err, calls) \<Rightarrow> (0, calls)
                   | (Inr result, calls) \<Rightarrow> (totalOf result, calls))
              | ((False, rest), calls) \<Rightarrow> (0, calls))
           of (totalValue, calls) \<Rightarrow>
             let stats = \<lparr>TotalProducts = totalProducts, TotalAdmins = totalAdmins,
                          TotalValue = totalValue\<rparr>
             in (WriteJSON StatusOK (JObject [(''stats'', Stats_json stats)]),
                 cursor_Close ctx ''products'' calls)))"

section \<open>Authentication and admins in the controller package\<close>

text \<open>\<open>Controller.Register\<close> has the statements of \<open>register\<close> of main.go.\<close>

definition Controller_Register ::
  "Crypto \<Rightarrow> Env \<Rightarrow> DB \<Rightarrow> RegisterRequest Body \<Rightarrow> HttpResponse \<times> DB" where
  "Controller_Register = register"

definition Controller_Login ::
  "Crypto \<Rightarrow> string \<Rightarrow> Env \<Rightarrow> DB \<Rightarrow> LoginRequest Body \<Rightarrow> HttpResponse \<times> DB" where
  "Controller_Login crypto PasetoSecretKey env db body =
     (case ShouldBindJSON ''LoginRequest'' LoginRequest_required body of
        Inl e \<Rightarrow> (ginError StatusBadRequest e, db)
      | Inr req \<Rightarrow>
          (case FindOne (DBErr env 0) (\<lambda>a. Admin.Username a = LoginRequest.Username req)
                  (admins db) of
             Inl err \<Rightarrow> (ginError StatusUnauthorized ''Invalid credentials'', db)
           | Inr admin \<Rightarrow>
               if \<not> CompareHashAndPassword crypto (Admin.Password admin) (LoginRequest.Password req)
               then (ginError StatusUnauthorized ''Invalid credentials'', db)
               else
                 let now = Clock env 0;
                     exp = now + 24 * Hour;
                     jsonToken = \<lparr>Subject = Hex (ID admin), IssuedAt = now, Expiration = exp\<rparr>
                 in case Encrypt crypto PasetoSecretKey jsonToken ''pitipaw-admin'' of
                      None \<Rightarrow> (ginError StatusInternalServerError ''Failed to generate token'', db)
                    | Some token \<Rightarrow>
                        (WriteJSON StatusOK
                           (JObject [(''message'', JString ''Login successful''),
                                     (''admin'', Admin_json (admin\<lparr>Admin.Password := []\<rparr>)),
                                     (''token'', JString token)]),
                         db)))"

text \<open>
  \<open>Controller.CreateAdmin\<close> drops the error of \<open>bcrypt.GenerateFromPassword\<close>: on an error
  the hash is \<open>nil\<close> and the stored password is the empty string.
\<close>

definition Controller_CreateAdmin ::
  "Crypto \<Rightarrow> Env \<Rightarrow> DB \<Rightarrow> Admin Body \<Rightarrow> HttpResponse \<times> DB" where
  "Controller_CreateAdmin crypto env db body =
     (case ShouldBindJSON ''Admin'' (\<lambda>a. []) body of
        Inl e \<Rightarrow> (ginError StatusBadRequest e, db)
      | Inr admin \<Rightarrow>
          let hashedPassword =
                (case GenerateFromPassword crypto (Salt env) (Admin.Password admin) of
                   None \<Rightarrow> []
                 | Some h \<Rightarrow> h);
              admin = admin\<lparr>Admin.Password := hashedPassword, Admin.CreatedAt := Clock env 0\<rparr>
          in case InsertOne (DBErr env 0) (NewID env) (admins db) admin of
               Inl e \<Rightarrow> (ginError StatusInternalServerError e, db)
             | Inr (insertedID, coll) \<Rightarrow>
                 (WriteJSON StatusCreated
                    (JObject [(''admin'',
                       Admin_json (admin\<lparr>ID := insertedID, Admin.Password := []\<rparr>))]),
                  db\<lparr>admins := coll\<rparr>))"

section \<open>Registration in part 006\<close>

text \<open>
  The revision of part 006 has no hashing: \<open>register\<close> stores the password of the
  request (its comment: "In production, hash the password"). Its \<open>createAdmin\<close> and
  \<open>getAdmins\<close> are those of main.go above.
\<close>

definition register_plain :: "Env \<Rightarrow> DB \<Rightarrow> RegisterRequest Body \<Rightarrow> HttpResponse \<times> DB" where
  "register_plain env db body =
     (case ShouldBindJSON ''RegisterRequest'' RegisterRequest_required body of
        Inl e \<Rightarrow> (ginError StatusBadRequest e, db)
      | Inr req \<Rightarrow>
          (case FindOne (DBErr env 0) (\<lambda>a. Admin.Username a = RegisterRequest.Username req)
                  (admins db) of
             Inr existingAdmin \<Rightarrow> (ginError StatusConflict ''Username already exists'', db)
           | Inl err \<Rightarrow>
               let admin = \<lparr>ID = NilObjectID,
                            Admin.Username = RegisterRequest.Username req,
                            Admin.Email = RegisterRequest.Email req,
                            Admin.Password = RegisterRequest.Password req,
                            Admin.CreatedAt = Clock env 0\<rparr>
               in case InsertOne (DBErr env 1) (NewID env) (admins db) admin of
                    Inl e \<Rightarrow> (ginError StatusInternalServerError e, db)
                  | Inr (insertedID, coll) \<Rightarrow>
                      (WriteJSON StatusCreated
                         (JObject [(''message'', JString ''Registration successful''),
                                   (''admin'',
                                      Admin_json (admin\<lparr>ID := insertedID,
                                                         Admin.Password := []\<rparr>))]),
                       db\<lparr>admins := coll\<rparr>)))"

section \<open>Handlers of main-pure.go (net/http) and of the gin revision with input structs\<close>

record PureProduct = Doc +
  Name :: string
  Price :: real
  Description :: string
  ImageURL :: string

record PureAdmin = Doc +
  Username :: string
  Password :: string

record ProductInput =
  Name :: string
  Price :: real
  Description :: string
  ImageURL :: string

record AdminInput =
  Username :: string
  Password :: string

record LoginInput =
  Username :: string
  Password :: string

record PureDB =
  products :: "PureProduct list"
  admins :: "PureAdmin list"

definition PureProduct_json :: "PureProduct \<Rightarrow> Json" where
  "PureProduct_json p =
     JObject [(''_id'', JString (Hex (ID p))),
              (''name'', JString (PureProduct.Name p)),
              (''price'', JNumber (PureProduct.Price p)),
              (''description'', JString (PureProduct.Description p)),
              (''image_url'', JString (PureProduct.ImageURL p))]"

definition PureAdmin_json :: "PureAdmin \<Rightarrow> Json" where
  "PureAdmin_json a =
     JObject ([(''_id'', JString (Hex (ID a))),
               (''username'', JString (PureAdmin.Username a))]
              @ omitempty ''password'' (PureAdmin.Password a))"

text \<open>main-pure.go, \<open>createProduct\<close>.\<close>

definition createProduct_pure ::
  "Env \<Rightarrow> PureDB \<Rightarrow> ProductInput Body \<Rightarrow> HttpResponse \<times> PureDB" where
  "createProduct_pure env db body =
     (case body of
        Malformed e \<Rightarrow> (writeError StatusBadRequest ''Invalid JSON'', db)
      | Decoded input \<Rightarrow>
          if ProductInput.Name input = [] \<or> ProductInput.Price input \<le> 0
          then (writeError StatusBadRequest ''Nama dan harga produk wajib diisi'', db)
          else
            let product = \<lparr>ID = NilObjectID,
                           PureProduct.Name = ProductInput.Name input,
                           PureProduct.Price = ProductInput.Price input,
                           PureProduct.Description = ProductInput.Description input,
                           PureProduct.ImageURL = ProductInput.ImageURL input\<rparr>
            in case InsertOne (DBErr env 0) (NewID env) (PureDB.products db) product of
                 Inl e \<Rightarrow>
                   (writeError StatusInternalServerError (''Error creating product: '' @ e), db)
               | Inr (insertedID, coll) \<Rightarrow>
                   (WriteJSON StatusCreated (PureProduct_json (product\<lparr>ID := insertedID\<rparr>)),
                    db\<lparr>PureDB.products := coll\<rparr>))"

text \<open>
  The gin revision (part 005, and the last file of main.go): \<open>ProductInput\<close> has
  \<open>binding:"required"\<close> on \<open>Name\<close> and \<open>Price\<close>, and \<open>createProduct\<close> has no check of
  its own.
\<close>

definition ProductInput_required :: "ProductInput \<Rightarrow> (string \<times> bool) list" where
  "ProductInput_required i =
     [(''Name'', ProductInput.Name i = []), (''Price'', ProductInput.Price i = 0)]"

definition createProduct_gin ::
  "Env \<Rightarrow> PureDB \<Rightarrow> ProductInput Body \<Rightarrow> HttpResponse \<times> PureDB" where
  "createProduct_gin env db body =
     (case ShouldBindJSON ''ProductInput'' ProductInput_required body of
        Inl e \<Rightarrow> (ginError StatusBadRequest ''Nama dan harga produk wajib diisi'', db)
      | Inr input \<Rightarrow>
          let product = \<lparr>ID = NilObjectID,
                         PureProduct.Name = ProductInput.Name input,
                         PureProduct.Price = ProductInput.Price input,
                         PureProduct.Description = ProductInput.Description input,
                         PureProduct.ImageURL = ProductInput.ImageURL input\<rparr>
          in case InsertOne (DBErr env 0) (NewID env) (PureDB.products db) product of
               Inl e \<Rightarrow>
                 (ginError StatusInternalServerError (''Error creating product: '' @ e), db)
             | Inr (insertedID, coll) \<Rightarrow>
                 (WriteJSON StatusCreated (PureProduct_json (product\<lparr>ID := insertedID\<rparr>)),
                  db\<lparr>PureDB.products := coll\<rparr>))"

text \<open>
  main-pure.go, \<open>getAdmins\<close>: the query projects the password away, so the decoded
  \<open>Password\<close> is empty and \<open>omitempty\<close> leaves the key out.
\<close>

definition getAdmins_pure :: "Env \<Rightarrow> PureDB \<Rightarrow> HttpResponse" where
  "getAdmins_pure env db =
     (case Find (DBErr env 0) (map (\<lambda>a. a\<lparr>PureAdmin.Password := []\<rparr>) (PureDB.admins db)) of
        Inl e \<Rightarrow> writeError StatusInternalServerError (''Error fetching admins: '' @ e)
      | Inr cursor \<Rightarrow>
          (case cursor_All (DBErr env 1) cursor of
             Inl e \<Rightarrow> writeError StatusInternalServerError (''Error parsing admins: '' @ e)
           | Inr adminList \<Rightarrow> WriteJSON StatusOK (JArray (map PureAdmin_json adminList))))"

definition createAdmin_pure ::
  "Crypto \<Rightarrow> Env \<Rightarrow> PureDB \<Rightarrow> AdminInput Body \<Rightarrow> HttpResponse \<times> PureDB" where
  "createAdmin_pure crypto env db body =
     (case body of
        Malformed e \<Rightarrow> (writeError StatusBadRequest ''Invalid JSON'', db)
      | Decoded input \<Rightarrow>
          if AdminInput.Username input = [] \<or> AdminInput.Password input = []
          then (writeError StatusBadRequest ''Username dan password wajib diisi'', db)
          else
            (case FindOne (DBErr env 0) (\<lambda>a. PureAdmin.Username a = AdminInput.Username input)
                    (PureDB.admins db) of
               Inr existingAdmin \<Rightarrow> (writeError StatusBadRequest ''Username sudah ada'', db)
             | Inl err \<Rightarrow>
                 (case GenerateFromPassword crypto (Salt env) (AdminInput.Password input) of
                    None \<Rightarrow> (writeError StatusInternalServerError ''Error hashing password'', db)
                  | Some hashedPassword \<Rightarrow>
                      let admin = \<lparr>ID = NilObjectID,
                                   PureAdmin.Username = AdminInput.Username input,
                                   PureAdmin.Password = hashedPassword\<rparr>
                      in case InsertOne (DBErr env 1) (NewID env) (PureDB.admins db) admin of
                           Inl e \<Rightarrow>
                             (writeError StatusInternalServerError
                                (''Error creating admin: '' @ e), db)
                         | Inr (insertedID, coll) \<Rightarrow>
                             (WriteJSON StatusCreated
                                (JObject [(''_id'', JString (Hex insertedID)),
                                          (''username'', JString (PureAdmin.Username admin)),
                                          (''message'', JString ''Admin created successfully'')]),
                              db\<lparr>PureDB.admins := coll\<rparr>))))"

definition loginAdmin ::
  "Crypto \<Rightarrow> Env \<Rightarrow> PureDB \<Rightarrow> LoginInput Body \<Rightarrow> HttpResponse \<times> PureDB" where
  "loginAdmin crypto env db body =
     (case body of
        Malformed e \<Rightarrow> (writeError StatusBadRequest ''Invalid JSON'', db)
      | Decoded input \<Rightarrow>
          if LoginInput.Username input = [] \<or> LoginInput.Password input = []
          then (writeError StatusBadRequest ''Username dan password wajib diisi'', db)
          else
            (case FindOne (DBErr env 0) (\<lambda>a. PureAdmin.Username a = LoginInput.Username input)
                    (PureDB.admins db) of
               Inl err \<Rightarrow> (writeError StatusUnauthorized ''Username/password salah'', db)
             | Inr admin \<Rightarrow>
                 if \<not> CompareHashAndPassword crypto (PureAdmin.Password admin)
                        (LoginInput.Password input)
                 then (writeError StatusUnauthorized ''Username/password salah'', db)
                 else
                   (WriteJSON StatusOK
                      (JObject [(''message'', JString ''Login berhasil''),
                                (''admin'',
                                   JObject [(''username'', JString (PureAdmin.Username admin))])]),
                    db)))"

definition statsHandler :: "Env \<Rightarrow> PureDB \<Rightarrow> string \<Rightarrow> HttpResponse \<times> DBCall list" where
  "statsHandler env db method =
     (if method \<noteq> ''GET'' then (writeError StatusMethodNotAllowed ''Method not allowed'', [])
      else
        let ctx = WithTimeout 10 in
        case CountDocuments ctx ''products'' (DBErr env 0) (PureDB.products db) [] of
          (Inl e, calls) \<Rightarrow>
            (writeError StatusInternalServerError (''Stats error: '' @ e), calls)
        | (Inr productsCount, calls) \<Rightarrow>
            (case CountDocuments ctx ''admins'' (DBErr env 1) (PureDB.admins db) calls of
               (Inl e, calls) \<Rightarrow>
                 (writeError StatusInternalServerError (''Stats error: '' @ e), calls)
             | (Inr adminsCount, calls) \<Rightarrow>
                 (WriteJSON StatusOK
                    (JObject [(''total_products'', JInt productsCount),
                              (''total_admins'', JInt adminsCount),
                              (''status'', JString ''ok'')]),
                  calls)))"
section \<open>Notions of the specification\<close>

text \<open>
  The checks of the upload handlers that keep the whitelist of extensions, on the file
  name and the size of the header: the size is at most 10 MiB, the file name has a dot,
  and the lower-cased text after the last dot is one of the four image extensions.
  \<open>formRead\<close> says that \<open>ParseMultipartForm\<close> returns no error on the request.
  \<open>firstFile\<close> is the part of the request that \<open>FormFile\<close> looks up under a form name:
  the first part of that name that carries a file name. \<open>fileBytes\<close> is the number of
  bytes in the file parts of a body.
\<close>

definition uploadChecks :: "Lib \<Rightarrow> string \<Rightarrow> int \<Rightarrow> bool" where
  "uploadChecks lib filename n =
     (n \<le> MaxFileSize \<and> CHR ''.'' \<in> set filename
      \<and> ToLower lib (last (Split filename (CHR ''.''))) \<in> {''png'', ''jpg'', ''jpeg'', ''gif''})"

definition formRead :: "UploadRequest \<Rightarrow> bool" where
  "formRead r = (ParseErr r = None \<and> ParseFormErr r = None)"

definition firstFile :: "UploadRequest \<Rightarrow> string \<Rightarrow> Part option" where
  "firstFile r name = find (\<lambda>p. FormName p = name \<and> ClientFilename p \<noteq> []) (Parts r)"

fun fileBytes :: "Part list \<Rightarrow> int" where
  "fileBytes [] = 0"
| "fileBytes (p # ps) =
     (if FormName p = [] \<or> ClientFilename p = [] then fileBytes ps
      else int (length (Content p)) + fileBytes ps)"

text \<open>
  A registration whose required fields are all filled in, and the number of stored admins
  with a given user name.
\<close>

definition validRegisterRequest :: "RegisterRequest \<Rightarrow> bool" where
  "validRegisterRequest r =
     (RegisterRequest.Username r \<noteq> [] \<and> RegisterRequest.Email r \<noteq> []
      \<and> RegisterRequest.Password r \<noteq> [])"

definition validAdminInput :: "AdminInput \<Rightarrow> bool" where
  "validAdminInput i = (AdminInput.Username i \<noteq> [] \<and> AdminInput.Password i \<noteq> [])"

definition storedWithUsername :: "string \<Rightarrow> Admin list \<Rightarrow> nat" where
  "storedWithUsername u coll = length (filter (\<lambda>a. Admin.Username a = u) coll)"

definition storedWithUsernamePure :: "string \<Rightarrow> PureAdmin list \<Rightarrow> nat" where
  "storedWithUsernamePure u coll = length (filter (\<lambda>a. PureAdmin.Username a = u) coll)"

text \<open>The login request with a user name and a password.\<close>

definition loginRequest :: "string \<Rightarrow> string \<Rightarrow> LoginRequest" where
  "loginRequest u pw = \<lparr>LoginRequest.Username = u, LoginRequest.Password = pw\<rparr>"

definition loginInput :: "string \<Rightarrow> string \<Rightarrow> LoginInput" where
  "loginInput u pw = \<lparr>LoginInput.Username = u, LoginInput.Password = pw\<rparr>"

text \<open>
  The values a JSON body carries under the key \<open>password\<close>, at any depth. A response is
  \<open>passwordStripped\<close> when each of them is the empty string.
\<close>

fun passwordValues :: "Json \<Rightarrow> Json list" where
  "passwordValues (JObject kvs) =
     concat (map (\<lambda>(k, v). (if k = ''password'' then [v] else []) @ passwordValues v) kvs)"
| "passwordValues (JArray vs) = concat (map passwordValues vs)"
| "passwordValues v = []"

fun responseBody :: "HttpResponse \<Rightarrow> Json" where
  "responseBody (WriteJSON code body) = body"
| "responseBody (ServeFile p) = JNull"

definition passwordStripped :: "HttpResponse \<Rightarrow> bool" where
  "passwordStripped r = list_all (\<lambda>v. v = JString []) (passwordValues (responseBody r))"





section \<open>Example inputs\<close>

text \<open>
  Concrete requests and states at which the theorems below are instantiated. \<open>lib0\<close>
  lower-cases ASCII; its size format is only right for files under 50 kB. \<open>toyCrypto\<close>
  stands in for bcrypt and Paseto: its hash is the salt and the reversed password, and its
  token shows the subject and the footer. \<open>failing n e\<close> is an environment whose \<open>n\<close>-th
  driver call fails with \<open>e\<close>. \<open>disk0\<close> is an empty disk on which nothing fails;
  \<open>singleUpload field name content\<close> is the POST request whose body is one file part.
\<close>

definition lib0 :: Lib where
  "lib0 = \<lparr>ToLower = asciiToLower, FormatMB = (\<lambda>n. ''0.0'')\<rparr>"

definition disk0 :: Disk where
  "disk0 = \<lparr>Files = Map.empty, CreateErr = (\<lambda>p. None), CopyErr = None,
              TempName = ''/tmp/multipart-1'', OpenErr = None\<rparr>"

definition env0 :: Env where
  "env0 = \<lparr>Clock = (\<lambda>n. 1700000000000000000 + int n),
           NewID = ObjectID ''65a000000000000000000001'',
           Salt = ''NaCl'',
           DBErr = (\<lambda>n. None)\<rparr>"

definition emptyDB :: DB where
  "emptyDB = \<lparr>DB.products = [], DB.admins = []\<rparr>"

definition emptyPureDB :: PureDB where
  "emptyPureDB = \<lparr>PureDB.products = [], PureDB.admins = []\<rparr>"

definition singleUpload :: "string \<Rightarrow> string \<Rightarrow> string \<Rightarrow> UploadRequest" where
  "singleUpload field name content =
     \<lparr>UMethod = ''POST'',
      Parts = [\<lparr>FormName = field, ClientFilename = name, Content = content\<rparr>],
      ParseErr = None, ParseFormErr = None\<rparr>"

definition dotsUpload :: "string \<Rightarrow> UploadRequest" where
  "dotsUpload content = singleUpload ''image'' ''logo..PNG'' content"

definition exeUpload :: "string \<Rightarrow> UploadRequest" where
  "exeUpload field = singleUpload field ''setup.exe'' ''MZ00''"

definition dirUpload :: "string \<Rightarrow> UploadRequest" where
  "dirUpload content = singleUpload ''image'' ''a/b.png'' content"

definition dotsRequest :: Request where
  "dotsRequest = \<lparr>Method = ''GET'', URLPath = ''/static/uploads/logo..PNG''\<rparr>"

definition bigUpload :: "string \<Rightarrow> UploadRequest" where
  "bigUpload field = singleUpload field ''big.png'' (replicate 10485761 (CHR ''x''))"

definition blankProduct :: Product where
  "blankProduct = \<lparr>ID = NilObjectID, Product.Name = [], Product.Price = 0,
      Product.Description = [], Category = [], Image = [], Product.ImageURL = [], Stock = 0,
      Product.CreatedAt = 0, UpdatedAt = 0, ImageData = [], ImageBase64 = []\<rparr>"

definition negativeInput :: ProductInput where
  "negativeInput = \<lparr>ProductInput.Name = ''Widget'', ProductInput.Price = - 5,
      ProductInput.Description = [], ProductInput.ImageURL = []\<rparr>"


definition toyCrypto :: Crypto where
  "toyCrypto =
     \<lparr>GenerateFromPassword =
        (\<lambda>salt pw. if length pw > 72 then None else Some (''$toy$'' @ salt @ ''$'' @ rev pw)),
      CompareHashAndPassword =
        (\<lambda>h pw. take 5 h = ''$toy$'' \<and> drop (length h - Suc (length pw)) h = CHR ''$'' # rev pw),
      Encrypt =
        (\<lambda>key tok footer. if length key \<noteq> 32 then None
                            else Some (''v2.local.'' @ Subject tok @ ''.'' @ footer))\<rparr>"

definition aliceRegister :: "string \<Rightarrow> RegisterRequest" where
  "aliceRegister pw =
     \<lparr>RegisterRequest.Username = ''alice'', RegisterRequest.Email = ''a@x.com'',
      RegisterRequest.Password = pw\<rparr>"

definition aliceInput :: "string \<Rightarrow> AdminInput" where
  "aliceInput pw = \<lparr>AdminInput.Username = ''alice'', AdminInput.Password = pw\<rparr>"

definition env1 :: Env where
  "env1 = env0\<lparr>NewID := ObjectID ''65a000000000000000000002''\<rparr>"

definition bobAdmin :: Admin where
  "bobAdmin = \<lparr>ID = NilObjectID, Admin.Username = ''bob'', Admin.Email = ''b@x.com'',
               Admin.Password = ''secret'', Admin.CreatedAt = 0\<rparr>"

definition key32 :: string where
  "key32 = ''12345678901234567890123456789012''"

definition aliceDB :: DB where
  "aliceDB = snd (register toyCrypto env0 emptyDB (Decoded (aliceRegister ''pw'')))"

definition alicePureDB :: PureDB where
  "alicePureDB = snd (createAdmin_pure toyCrypto env0 emptyPureDB (Decoded (aliceInput ''pw'')))"

definition twoBobsDB :: DB where
  "twoBobsDB =
     snd (Controller_CreateAdmin toyCrypto env1
            (snd (Controller_CreateAdmin toyCrypto env0 emptyDB (Decoded bobAdmin)))
            (Decoded (bobAdmin\<lparr>Admin.Password := ''other''\<rparr>)))"

definition aliceAdmin :: Admin where
  "aliceAdmin = \<lparr>ID = ObjectID ''65a000000000000000000001'', Admin.Username = ''alice'',
                 Admin.Email = ''a@x.com'', Admin.Password = ''$toy$NaCl$wp'',
                 Admin.CreatedAt = 1700000000000000000\<rparr>"

definition alicePureAdmin :: PureAdmin where
  "alicePureAdmin = \<lparr>ID = ObjectID ''65a000000000000000000001'',
                     PureAdmin.Username = ''alice'', PureAdmin.Password = ''$toy$NaCl$wp''\<rparr>"

definition shopDB :: DB where
  "shopDB =
     \<lparr>DB.products =
        [blankProduct\<lparr>ID := ObjectID ''65a0000000000000000000a1'', Product.Name := ''Widget'',
                      Product.Price := 2.5, Stock := 4\<rparr>,
         blankProduct\<lparr>ID := ObjectID ''65a0000000000000000000a2'', Product.Name := ''Gadget'',
                      Product.Price := 10, Stock := 3\<rparr>],
      DB.admins = [aliceAdmin]\<rparr>"

definition shopPureDB :: PureDB where
  "shopPureDB =
     \<lparr>PureDB.products =
        [\<lparr>ID = ObjectID ''65a0000000000000000000a1'', PureProduct.Name = ''Widget'',
          PureProduct.Price = 2.5, PureProduct.Description = [], PureProduct.ImageURL = []\<rparr>],
      PureDB.admins = [alicePureAdmin]\<rparr>"

section \<open>Properties: strings\<close>

lemma Contains_sublist: "Contains s sub = sublist sub s"
  by (induction s) (auto simp: sublist_Cons_right)

lemma Split_length: "length (Split s c) = Suc (length (filter (\<lambda>x. x = c) s))"
  by (induction s) (auto split: list.splits)

lemma Split_no_sep: "length (Split s c) < 2 \<longleftrightarrow> c \<notin> set s"
  by (auto simp: Split_length filter_empty_conv less_Suc_eq)

lemma allowedExtensions_iff:
  "allowedExtensions ext \<longleftrightarrow> ext \<in> {''png'', ''jpg'', ''jpeg'', ''gif''}"
  by (simp add: allowedExtensions_def)

section \<open>Properties: static files\<close>

lemma Contains_TrimPrefix_static:
  assumes "prefix ''/static/'' p" and "Contains p ''..''"
  shows "Contains (TrimPrefix p ''/static/'') ''..''"
proof -
  from assms(1) obtain rest where "p = ''/static/'' @ rest"
    by (auto simp: prefix_def)
  with assms(2) show ?thesis
    by (simp add: TrimPrefix_def)
qed

text \<open>
  C7. A GET request under \<open>/static/\<close> whose path has \<open>..\<close> as a substring is answered by
  \<open>staticHandler\<close> with the error 400 "Invalid file path"; the request is not handed to
  \<open>http.ServeFile\<close>, whatever the file system holds.
\<close>

theorem static_dotdot_rejected:
  assumes "Method r = ''GET''"
    and "prefix ''/static/'' (URLPath r)"
    and "sublist ''..'' (URLPath r)"
  shows "staticHandler os_Stat r = writeError StatusBadRequest ''Invalid file path''"
proof -
  have c: "Contains (TrimPrefix (URLPath r) ''/static/'') ''..''"
    using assms(2,3) Contains_TrimPrefix_static by (simp add: Contains_sublist)
  then have "TrimPrefix (URLPath r) ''/static/'' \<noteq> []"
    by auto
  with c assms(1) show ?thesis
    by (simp add: staticHandler_def Let_def)
qed

theorem static_dotdot_rejected_witness:
  "Method dotsRequest = ''GET''
   \<and> prefix ''/static/'' (URLPath dotsRequest)
   \<and> sublist ''..'' (URLPath dotsRequest)
   \<and> staticHandler (\<lambda>p. StatOK) dotsRequest
       = WriteJSON 400 (JObject [(''error'', JString ''Invalid file path'')])"
proof -
  have m: "Method dotsRequest = ''GET''"
    by (simp add: dotsRequest_def)
  have p: "prefix ''/static/'' (URLPath dotsRequest)"
    by (simp add: dotsRequest_def)
  have s: "sublist ''..'' (URLPath dotsRequest)"
    unfolding Contains_sublist [symmetric] by (simp add: dotsRequest_def)
  from static_dotdot_rejected [OF m p s, of "\<lambda>p. StatOK"] m p s show ?thesis
    by (simp add: writeError_def Response_json_def omitempty_def StatusBadRequest_def)
qed

section \<open>Properties: uploads\<close>

lemma Base_nonempty: "Base p \<noteq> []"
  by (simp add: Base_def Let_def)

lemma Part_FileName_empty: "Part_FileName p = [] \<longleftrightarrow> ClientFilename p = []"
  by (simp add: Part_FileName_def Base_nonempty)

lemma readParts_lookup:
  assumes "key \<noteq> []"
  shows "case find (\<lambda>p. FormName p = key \<and> ClientFilename p \<noteq> []) ps of
           None \<Rightarrow> map_of (fst (readParts b tmp ps)) key = None
         | Some p \<Rightarrow>
             (\<exists>h. map_of (fst (readParts b tmp ps)) key = Some h
                \<and> Filename h = Base (ClientFilename p) \<and> Size h = int (length (Content p))
                \<and> Data h = Content p
                \<and> (Size h > b \<longrightarrow> snd (readParts b tmp ps) \<noteq> None))"
proof (induction ps arbitrary: b)
  case Nil
  then show ?case by simp
next
  case (Cons p ps)
  show ?case
    using Cons.IH [of b] Cons.IH [of "b - int (length (Content p))"] assms
    by (auto simp add: Part_FileName_def Base_nonempty split: prod.splits option.splits)
qed

lemma readParts_in_memory:
  "fileBytes ps \<le> b \<Longrightarrow> snd (readParts b tmp (take k ps)) = None"
proof (induction ps arbitrary: b k)
  case Nil
  then show ?case by simp
next
  case (Cons p ps)
  have nn: "0 \<le> fileBytes qs" for qs
    by (induction qs) auto
  show ?case
  proof (cases k)
    case 0
    then show ?thesis by simp
  next
    case (Suc j)
    show ?thesis
      using Cons.IH [of b j] Cons.IH [of "b - int (length (Content p))" j] Cons.prems nn [of ps] Suc
      by (auto simp add: Part_FileName_def Base_nonempty split: prod.splits if_splits)
  qed
qed

lemma ParseMultipartForm_frame:
  "q \<noteq> TempName d \<Longrightarrow> Files (snd (ParseMultipartForm m d r)) q = Files d q"
  "CreateErr (snd (ParseMultipartForm m d r)) = CreateErr d"
  "CopyErr (snd (ParseMultipartForm m d r)) = CopyErr d"
  "OpenErr (snd (ParseMultipartForm m d r)) = OpenErr d"
  "TempName (snd (ParseMultipartForm m d r)) = TempName d"
  by (auto simp add: ParseMultipartForm_def split: option.splits prod.splits)

lemma ParseMultipartForm_in_memory:
  assumes "fileBytes (Parts r) \<le> m"
  shows "snd (ParseMultipartForm m d r) = d"
proof (cases "ParseErr r")
  case None
  have "snd (readParts m (TempName d) (take (length (Parts r)) (Parts r))) = None"
    using readParts_in_memory [OF assms] .
  then show ?thesis
    using None
    by (auto simp add: ParseMultipartForm_def Let_def split: prod.splits option.splits)
next
  case (Some ke)
  obtain k e where ke: "ke = (k, e)" by (cases ke)
  have "snd (readParts m (TempName d) (take k (Parts r))) = None"
    using readParts_in_memory [OF assms] .
  then show ?thesis
    using Some ke by (auto simp add: ParseMultipartForm_def split: prod.splits option.splits)
qed

lemma ParseMultipartForm_fails:
  assumes "\<not> formRead r"
  shows "\<exists>e. fst (ParseMultipartForm m d r) = Inl e"
  using assms
  by (auto simp add: ParseMultipartForm_def formRead_def Let_def
        split: option.splits prod.splits)

lemma parsed_disk:
  assumes "ParseErr r = None" and "firstFile r key = Some p" and "key \<noteq> []"
    and "int (length (Content p)) > m"
  shows "Files (snd (ParseMultipartForm m d r)) (TempName d) \<noteq> None"
  using readParts_lookup [OF assms(3), where ps = "Parts r" and b = m and tmp = "TempName d"]
    assms(1,2,4)
  by (auto simp add: ParseMultipartForm_def firstFile_def Let_def
        split: option.splits prod.splits)

lemma parsed_file:
  assumes "formRead r" and "firstFile r key = Some p" and "key \<noteq> []"
  shows "\<exists>form h. fst (ParseMultipartForm m d r) = Inr form \<and> map_of form key = Some h
           \<and> Filename h = Base (ClientFilename p) \<and> Size h = int (length (Content p))
           \<and> Data h = Content p"
  using readParts_lookup [OF assms(3), where ps = "Parts r" and b = m and tmp = "TempName d"]
    assms(1,2)
  by (auto simp add: ParseMultipartForm_def firstFile_def formRead_def Let_def
        split: option.splits prod.splits)

lemma uploadHandler_parsed:
  assumes "statusOf (fst (uploadHandler lib d r)) = Some StatusCreated"
  shows "formRead r"
proof (rule ccontr)
  assume "\<not> formRead r"
  then obtain e where "fst (ParseMultipartForm MaxFileSize d r) = Inl e"
    using ParseMultipartForm_fails by blast
  then have "\<exists>d0. ParseMultipartForm MaxFileSize d r = (Inl e, d0)"
    by (cases "ParseMultipartForm MaxFileSize d r") simp
  with assms show False
    by (auto simp add: uploadHandler_def writeError_def Status_defs split: if_splits)
qed

lemma uploadHandler_accepts_iff:
  assumes "formRead r" and "OpenErr d = None" and "firstFile r ''image'' = Some p"
  shows "statusOf (fst (uploadHandler lib d r)) = Some StatusCreated \<longleftrightarrow>
           UMethod r = ''POST''
           \<and> uploadChecks lib (Base (ClientFilename p)) (int (length (Content p)))
           \<and> CreateErr d (UploadDir @ ''/'' @ Base (ClientFilename p)) = None \<and> CopyErr d = None"
proof -
  obtain form h where
    f: "fst (ParseMultipartForm MaxFileSize d r) = Inr form" "map_of form ''image'' = Some h"
      "Filename h = Base (ClientFilename p)" "Size h = int (length (Content p))"
    using parsed_file [OF assms(1) assms(3), of MaxFileSize d] by auto
  define d0 where "d0 = snd (ParseMultipartForm MaxFileSize d r)"
  have P: "ParseMultipartForm MaxFileSize d r = (Inr form, d0)"
    using f(1) by (simp add: d0_def prod_eq_iff)
  have e: "CreateErr d0 = CreateErr d" "CopyErr d0 = CopyErr d" "OpenErr d0 = None"
    using assms(2) by (simp_all add: d0_def ParseMultipartForm_frame)
  have F: "Request_FormFile d0 form ''image'' = Inr h"
    using f(2) e(3) by (simp add: Request_FormFile_def)
  show ?thesis
    using Split_no_sep [of "Filename h" "CHR ''.''"] f(3,4) e(1,2)
    by (auto simp: uploadHandler_def P F uploadChecks_def Let_def writeError_def Status_defs
          os_Create_def io_Copy_def allowedExtensions_iff
          split: option.splits sum.splits prod.splits)
qed

lemma uploadHandler_accepted_files:
  assumes "firstFile r ''image'' = Some p"
    and "statusOf (fst (uploadHandler lib d r)) = Some StatusCreated"
  shows "Files (snd (uploadHandler lib d r))
           = (Files (snd (ParseMultipartForm MaxFileSize d r)))
               (UploadDir @ ''/'' @ Base (ClientFilename p) \<mapsto> Content p)"
proof -
  have pe: "formRead r"
    using uploadHandler_parsed [OF assms(2)] .
  obtain form h where
    f: "fst (ParseMultipartForm MaxFileSize d r) = Inr form" "map_of form ''image'' = Some h"
      "Filename h = Base (ClientFilename p)" "Data h = Content p"
    using parsed_file [OF pe assms(1), of MaxFileSize d] by auto
  define d0 where "d0 = snd (ParseMultipartForm MaxFileSize d r)"
  have P: "ParseMultipartForm MaxFileSize d r = (Inr form, d0)"
    using f(1) by (simp add: d0_def prod_eq_iff)
  show ?thesis
    using assms(2) f(2,3,4) unfolding d0_def [symmetric]
    by (auto simp: uploadHandler_def P Request_FormFile_def Let_def writeError_def Status_defs
          os_Create_def io_Copy_def
          split: option.splits sum.splits prod.splits if_splits)
qed

lemma uploadHandler_rejects:
  assumes "UMethod r = ''POST''" and "firstFile r ''image'' = Some p"
    and "\<not> uploadChecks lib (Base (ClientFilename p)) (int (length (Content p)))"
  shows "statusOf (fst (uploadHandler lib d r)) = Some StatusBadRequest
         \<and> snd (uploadHandler lib d r) = snd (ParseMultipartForm MaxFileSize d r)"
proof (cases "formRead r")
  case False
  then obtain e where "fst (ParseMultipartForm MaxFileSize d r) = Inl e"
    using ParseMultipartForm_fails by blast
  then show ?thesis
    using assms(1)
    by (cases "ParseMultipartForm MaxFileSize d r")
      (simp add: uploadHandler_def writeError_def Status_defs)
next
  case True
  obtain form h where
    f: "fst (ParseMultipartForm MaxFileSize d r) = Inr form" "map_of form ''image'' = Some h"
      "Filename h = Base (ClientFilename p)" "Size h = int (length (Content p))"
    using parsed_file [OF True assms(2), of MaxFileSize d] by auto
  define d0 where "d0 = snd (ParseMultipartForm MaxFileSize d r)"
  have P: "ParseMultipartForm MaxFileSize d r = (Inr form, d0)"
    using f(1) by (simp add: d0_def prod_eq_iff)
  show ?thesis
    using assms(1,3) f(2,3,4) Split_no_sep [of "Filename h" "CHR ''.''"]
    unfolding d0_def [symmetric]
    by (auto simp: uploadHandler_def P Request_FormFile_def uploadChecks_def Let_def
          writeError_def Status_defs allowedExtensions_iff split: option.splits)
qed

lemma uploadHandler_spooled:
  assumes "UMethod r = ''POST''" and "ParseErr r = None" and "firstFile r ''image'' = Some p"
    and "int (length (Content p)) > MaxFileSize"
  shows "Files (snd (uploadHandler lib d r)) (TempName d) \<noteq> None"
proof -
  have "\<not> uploadChecks lib (Base (ClientFilename p)) (int (length (Content p)))"
    using assms(4) by (simp add: uploadChecks_def)
  from uploadHandler_rejects [OF assms(1) assms(3) this, of d]
  have "snd (uploadHandler lib d r) = snd (ParseMultipartForm MaxFileSize d r)"
    by simp
  then show ?thesis
    using parsed_disk [OF assms(2) assms(3) _ assms(4), of d] by simp
qed

lemma Context_FormFile_cases:
  assumes "firstFile r key = Some p" and "key \<noteq> []"
  shows "snd (Context_FormFile d r key) = snd (ParseMultipartForm defaultMultipartMemory d r)
         \<and> (case fst (Context_FormFile d r key) of
               Inl e \<Rightarrow> \<not> formRead r \<or> OpenErr d \<noteq> None
             | Inr h \<Rightarrow> formRead r \<and> Filename h = Base (ClientFilename p)
                         \<and> Size h = int (length (Content p)) \<and> Data h = Content p)"
proof (cases "formRead r")
  case False
  then obtain e where "fst (ParseMultipartForm defaultMultipartMemory d r) = Inl e"
    using ParseMultipartForm_fails by blast
  then show ?thesis
    using False
    by (cases "ParseMultipartForm defaultMultipartMemory d r") (simp add: Context_FormFile_def)
next
  case True
  obtain form h where
    f: "fst (ParseMultipartForm defaultMultipartMemory d r) = Inr form" "map_of form key = Some h"
      "Filename h = Base (ClientFilename p)" "Size h = int (length (Content p))"
      "Data h = Content p"
    using parsed_file [OF True assms(1) assms(2), of defaultMultipartMemory d] by auto
  show ?thesis
    using f True ParseMultipartForm_frame(4) [of defaultMultipartMemory d r]
    by (cases "ParseMultipartForm defaultMultipartMemory d r")
      (auto simp add: Context_FormFile_def Request_FormFile_def split: option.splits)
qed

lemma Context_FormFile_found:
  assumes "formRead r" and "OpenErr d = None" and "firstFile r key = Some p"
    and "key \<noteq> []"
  shows "\<exists>h. Context_FormFile d r key
                = (Inr h, snd (ParseMultipartForm defaultMultipartMemory d r))
           \<and> Filename h = Base (ClientFilename p) \<and> Size h = int (length (Content p))
           \<and> Data h = Content p"
  using Context_FormFile_cases [OF assms(3) assms(4), of d] assms(1,2)
  by (cases "Context_FormFile d r key") (auto split: sum.splits)

lemma uploadImage_accepts_iff:
  assumes "formRead r" and "OpenErr d = None" and "firstFile r ''image'' = Some p"
  shows "statusOf (fst (uploadImage lib d r)) = Some StatusCreated \<longleftrightarrow>
           uploadChecks lib (Base (ClientFilename p)) (int (length (Content p)))
           \<and> CreateErr d (UploadDir @ ''/'' @ Base (ClientFilename p)) = None \<and> CopyErr d = None"
proof -
  obtain h where
    f: "Context_FormFile d r ''image''
          = (Inr h, snd (ParseMultipartForm defaultMultipartMemory d r))"
      "Filename h = Base (ClientFilename p)" "Size h = int (length (Content p))"
    using Context_FormFile_found [OF assms(1) assms(2) assms(3)] by auto
  show ?thesis
    using Split_no_sep [of "Filename h" "CHR ''.''"] f(2,3) assms(2)
    by (auto simp: uploadImage_def f(1) uploadChecks_def SaveUploadedFile_def Let_def
          ginError_def Status_defs os_Create_def io_Copy_def allowedExtensions_iff
          ParseMultipartForm_frame
          split: option.splits sum.splits prod.splits)
qed

lemma uploadImage_accepted_files:
  assumes "firstFile r ''image'' = Some p"
    and "statusOf (fst (uploadImage lib d r)) = Some StatusCreated"
  shows "Files (snd (uploadImage lib d r))
           = (Files (snd (ParseMultipartForm defaultMultipartMemory d r)))
               (UploadDir @ ''/'' @ Base (ClientFilename p) \<mapsto> Content p)"
  using Context_FormFile_cases [OF assms(1), where d = d] assms(2)
  by (cases "Context_FormFile d r ''image''")
    (auto simp: uploadImage_def SaveUploadedFile_def Let_def ginError_def Status_defs
       os_Create_def io_Copy_def
       split: option.splits sum.splits prod.splits if_splits)

lemma uploadFile_rejects:
  assumes "firstFile r ''file'' = Some p" and "int (length (Content p)) > maxFileSize"
  shows "statusOf (fst (uploadFile maxFileSize openErr readErr env d db r))
           = Some StatusBadRequest
         \<and> snd (uploadFile maxFileSize openErr readErr env d db r)
             = (snd (ParseMultipartForm defaultMultipartMemory d r), db, [])"
  using Context_FormFile_cases [OF assms(1), where d = d] assms(2)
  by (cases "Context_FormFile d r ''file''")
    (auto simp: uploadFile_def ginError_def Status_defs split: sum.splits)

lemma uploadFile_too_large:
  assumes "formRead r" and "OpenErr d = None" and "firstFile r ''file'' = Some p"
    and "int (length (Content p)) > maxFileSize"
  shows "fst (uploadFile maxFileSize openErr readErr env d db r)
           = ginError StatusBadRequest ''File too large''"
  using Context_FormFile_found [OF assms(1) assms(2) assms(3)] assms(4)
  by (auto simp: uploadFile_def)

lemma uploadFile_ignores_extension:
  assumes "formRead r" and "OpenErr d = None" and "firstFile r ''file'' = Some p"
    and "int (length (Content p)) \<le> maxFileSize"
    and "NewID env \<notin> ID ` set (DB.products db)" and "DBErr env 0 = None"
  shows "\<exists>doc. uploadFile maxFileSize None None env d db r
            = (WriteJSON StatusOK
                 (JObject [(''message'',
                              JString ''File uploaded and saved to database successfully''),
                           (''id'', JString (Hex (NewID env))),
                           (''filename'', JString (Base (ClientFilename p)))]),
               snd (ParseMultipartForm defaultMultipartMemory d r),
               db\<lparr>DB.products := DB.products db @ [doc]\<rparr>,
               [DBCall Background ''products'' ''InsertOne''])
          \<and> Product.Name doc = Base (ClientFilename p) \<and> ImageData doc = Content p"
  using Context_FormFile_found [OF assms(1) assms(2) assms(3)] assms(4,5,6)
  by (auto simp: uploadFile_def InsertOne_ctx_def InsertOne_def Let_def)

lemma lower_PNG: "asciiToLower ''PNG'' = ''png''"
  by code_simp

lemma lower_png: "asciiToLower ''png'' = ''png''"
  by code_simp

lemma lower_exe: "asciiToLower ''exe'' = ''exe''"
  by code_simp

lemma Base_examples:
  "Base ''logo..PNG'' = ''logo..PNG''" "Base ''setup.exe'' = ''setup.exe''"
  "Base ''big.png'' = ''big.png''" "Base ''a/b.png'' = ''b.png''"
  by code_simp+

lemma firstFile_single:
  "firstFile (singleUpload field name content) field
     = (if name = [] then None
        else Some \<lparr>FormName = field, ClientFilename = name, Content = content\<rparr>)"
  by (simp add: firstFile_def singleUpload_def)

lemma singleUpload_sel:
  "UMethod (singleUpload field name content) = ''POST''"
  "Parts (singleUpload field name content)
     = [\<lparr>FormName = field, ClientFilename = name, Content = content\<rparr>]"
  "ParseErr (singleUpload field name content) = None"
  "ParseFormErr (singleUpload field name content) = None"
  "formRead (singleUpload field name content)"
  by (simp_all add: singleUpload_def formRead_def)

lemma dots_checks:
  "uploadChecks lib0 ''logo..PNG'' (int (length c)) = (int (length c) \<le> 10485760)"
  by (simp add: uploadChecks_def lib0_def MaxFileSize_def lower_PNG)

lemma exe_checks: "\<not> uploadChecks lib0 ''setup.exe'' 4"
  by (simp add: uploadChecks_def lib0_def lower_exe)

lemmas upload_eval =
  uploadHandler_def uploadImage_def Context_FormFile_def SaveUploadedFile_def
  ParseMultipartForm_def Request_FormFile_def Part_FileName_def Base_examples
  singleUpload_sel disk0_def lib0_def UploadDir_def MaxFileSize_def defaultMultipartMemory_def
  Status_defs Let_def os_Create_def io_Copy_def allowedExtensions_iff
  lower_PNG lower_png lower_exe

text \<open>
  C10, as the code has it. In \<open>uploadHandler\<close> (main-pure.go) and \<open>uploadImage\<close> (the gin
  revision that keeps the name) the file name the handler sees is the one the multipart
  reader reports: the last path element (\<open>filepath.Base\<close>) of the \<open>filename\<close> the
  client sent. When the form is read and the upload opens, an upload is accepted exactly
  when the size and extension checks pass on that name and the operating system writes
  the file; nothing else about the name is looked at. The file written by an accepted
  upload is the one at the upload directory, a slash and that last element; every other
  path, the temporary file of the reader apart, is left as it was. So a second accepted
  upload whose file name has the same last element replaces the content at that path.
\<close>

theorem upload_destination:
  assumes "firstFile r ''image'' = Some p"
  shows "(formRead r \<and> OpenErr d = None \<longrightarrow>
            (statusOf (fst (uploadHandler lib d r)) = Some StatusCreated \<longleftrightarrow>
               UMethod r = ''POST''
               \<and> uploadChecks lib (Base (ClientFilename p)) (int (length (Content p)))
               \<and> CreateErr d (UploadDir @ ''/'' @ Base (ClientFilename p)) = None
               \<and> CopyErr d = None))
       \<and> (statusOf (fst (uploadHandler lib d r)) = Some StatusCreated \<longrightarrow>
            Files (snd (uploadHandler lib d r)) (UploadDir @ ''/'' @ Base (ClientFilename p))
              = Some (Content p)
            \<and> (\<forall>q. q \<noteq> UploadDir @ ''/'' @ Base (ClientFilename p) \<and> q \<noteq> TempName d \<longrightarrow>
                  Files (snd (uploadHandler lib d r)) q = Files d q))
       \<and> (formRead r \<and> OpenErr d = None \<longrightarrow>
            (statusOf (fst (uploadImage lib d r)) = Some StatusCreated \<longleftrightarrow>
               uploadChecks lib (Base (ClientFilename p)) (int (length (Content p)))
               \<and> CreateErr d (UploadDir @ ''/'' @ Base (ClientFilename p)) = None
               \<and> CopyErr d = None))
       \<and> (statusOf (fst (uploadImage lib d r)) = Some StatusCreated \<longrightarrow>
            Files (snd (uploadImage lib d r)) (UploadDir @ ''/'' @ Base (ClientFilename p))
              = Some (Content p)
            \<and> (\<forall>q. q \<noteq> UploadDir @ ''/'' @ Base (ClientFilename p) \<and> q \<noteq> TempName d \<longrightarrow>
                  Files (snd (uploadImage lib d r)) q = Files d q))
       \<and> (firstFile r2 ''image'' = Some p2 \<and> Base (ClientFilename p2) = Base (ClientFilename p)
            \<and> statusOf (fst (uploadHandler lib d r)) = Some StatusCreated
            \<and> statusOf (fst (uploadHandler lib (snd (uploadHandler lib d r)) r2))
                = Some StatusCreated
            \<longrightarrow> Files (snd (uploadHandler lib (snd (uploadHandler lib d r)) r2))
                    (UploadDir @ ''/'' @ Base (ClientFilename p))
                  = Some (Content p2))"
proof -
  have a: "statusOf (fst (uploadHandler lib d r)) = Some StatusCreated \<longleftrightarrow>
               UMethod r = ''POST''
               \<and> uploadChecks lib (Base (ClientFilename p)) (int (length (Content p)))
               \<and> CreateErr d (UploadDir @ ''/'' @ Base (ClientFilename p)) = None
               \<and> CopyErr d = None"
    if "formRead r" "OpenErr d = None"
    using uploadHandler_accepts_iff [OF that assms] .
  have b: "Files (snd (uploadHandler lib d r)) (UploadDir @ ''/'' @ Base (ClientFilename p))
              = Some (Content p)
            \<and> (\<forall>q. q \<noteq> UploadDir @ ''/'' @ Base (ClientFilename p) \<and> q \<noteq> TempName d \<longrightarrow>
                  Files (snd (uploadHandler lib d r)) q = Files d q)"
    if "statusOf (fst (uploadHandler lib d r)) = Some StatusCreated"
    using uploadHandler_accepted_files [OF assms that]
    by (simp add: ParseMultipartForm_frame)
  have c: "statusOf (fst (uploadImage lib d r)) = Some StatusCreated \<longleftrightarrow>
               uploadChecks lib (Base (ClientFilename p)) (int (length (Content p)))
               \<and> CreateErr d (UploadDir @ ''/'' @ Base (ClientFilename p)) = None
               \<and> CopyErr d = None"
    if "formRead r" "OpenErr d = None"
    using uploadImage_accepts_iff [OF that assms] .
  have e: "Files (snd (uploadImage lib d r)) (UploadDir @ ''/'' @ Base (ClientFilename p))
              = Some (Content p)
            \<and> (\<forall>q. q \<noteq> UploadDir @ ''/'' @ Base (ClientFilename p) \<and> q \<noteq> TempName d \<longrightarrow>
                  Files (snd (uploadImage lib d r)) q = Files d q)"
    if "statusOf (fst (uploadImage lib d r)) = Some StatusCreated"
    using uploadImage_accepted_files [OF assms that]
    by (simp add: ParseMultipartForm_frame)
  have f: "Files (snd (uploadHandler lib (snd (uploadHandler lib d r)) r2))
                    (UploadDir @ ''/'' @ Base (ClientFilename p))
                  = Some (Content p2)"
    if "firstFile r2 ''image'' = Some p2" "Base (ClientFilename p2) = Base (ClientFilename p)"
      "statusOf (fst (uploadHandler lib (snd (uploadHandler lib d r)) r2)) = Some StatusCreated"
    using uploadHandler_accepted_files [OF that(1) that(3)] that(2) by simp
  show ?thesis
    using a b c e f by blast
qed

theorem upload_destination_witness:
  "firstFile (dotsUpload ''first'') ''image''
     = Some \<lparr>FormName = ''image'', ClientFilename = ''logo..PNG'', Content = ''first''\<rparr>
   \<and> Base ''logo..PNG'' = ''logo..PNG''
   \<and> formRead (dotsUpload ''first'') \<and> OpenErr disk0 = None
   \<and> statusOf (fst (uploadHandler lib0 disk0 (dotsUpload ''first''))) = Some 201
   \<and> Files (snd (uploadHandler lib0 disk0 (dotsUpload ''first'')))
       = [''static/uploads/logo..PNG'' \<mapsto> ''first'']
   \<and> statusOf (fst (uploadImage lib0 disk0 (dotsUpload ''first''))) = Some 201
   \<and> Files (snd (uploadImage lib0 disk0 (dotsUpload ''first'')))
       = [''static/uploads/logo..PNG'' \<mapsto> ''first'']
   \<and> Files (snd (uploadHandler lib0 (snd (uploadHandler lib0 disk0 (dotsUpload ''first'')))
                  (dotsUpload ''second'')))
       = [''static/uploads/logo..PNG'' \<mapsto> ''second'']"
proof -
  let ?p = "\<lparr>FormName = ''image'', ClientFilename = ''logo..PNG'', Content = ''first''\<rparr>"
  let ?p2 = "\<lparr>FormName = ''image'', ClientFilename = ''logo..PNG'', Content = ''second''\<rparr>"
  have f: "firstFile (dotsUpload ''first'') ''image'' = Some ?p"
    by (simp add: dotsUpload_def firstFile_single)
  from upload_destination [OF f, of disk0 lib0 "dotsUpload ''second''" ?p2]
  show ?thesis
    by (simp add: dotsUpload_def firstFile_single upload_eval uploadChecks_def)
qed

text \<open>
  C10 as stated fails: the destination is not the upload directory, a slash and the file
  name the client supplied. An upload the client names \<open>a/b.png\<close> is accepted and written
  to \<open>static/uploads/b.png\<close>; nothing is written at \<open>static/uploads/a/b.png\<close>.
\<close>

theorem upload_base_name_counterexample:
  "firstFile (dirUpload ''img'') ''image''
     = Some \<lparr>FormName = ''image'', ClientFilename = ''a/b.png'', Content = ''img''\<rparr>
   \<and> statusOf (fst (uploadHandler lib0 disk0 (dirUpload ''img''))) = Some 201
   \<and> Files (snd (uploadHandler lib0 disk0 (dirUpload ''img''))) (UploadDir @ ''/'' @ ''a/b.png'')
       = None
   \<and> Files (snd (uploadHandler lib0 disk0 (dirUpload ''img'')))
       = [''static/uploads/b.png'' \<mapsto> ''img'']
   \<and> statusOf (fst (uploadImage lib0 disk0 (dirUpload ''img''))) = Some 201
   \<and> Files (snd (uploadImage lib0 disk0 (dirUpload ''img'')))
       = [''static/uploads/b.png'' \<mapsto> ''img'']"
  by (simp add: dirUpload_def firstFile_single upload_eval)

text \<open>
  The two handlers of main-pure.go side by side: the upload named \<open>logo..PNG\<close> is
  accepted and written, and the request for the file it wrote is refused for its two dots.
\<close>

lemma uploaded_name_not_served:
  "statusOf (fst (uploadHandler lib0 disk0 (dotsUpload ''first''))) = Some 201
   \<and> Files (snd (uploadHandler lib0 disk0 (dotsUpload ''first''))) ''static/uploads/logo..PNG''
       = Some ''first''
   \<and> staticHandler (\<lambda>p. StatOK) dotsRequest
       = WriteJSON 400 (JObject [(''error'', JString ''Invalid file path'')])"
  by (simp add: dotsUpload_def dotsRequest_def upload_eval staticHandler_def TrimPrefix_def
        writeError_def Response_json_def omitempty_def)

text \<open>
  C6, as the code has it. \<open>uploadHandler\<close> (main-pure.go) answers 400 for every POST
  upload whose size exceeds 10 MiB, whose file name has no dot, or whose lower-cased text
  after the last dot is not one of png, jpg, jpeg, gif. It writes nothing itself: the disk
  is as \<open>ParseMultipartForm\<close> left it, which the handler calls before it looks at the
  size. Every path but the temporary file of the multipart reader is as it was; the whole
  disk is as it was when the file parts of the body hold at most 10 MiB together; and
  when the multipart reader does not fail and the upload is larger than 10 MiB, the
  temporary file is on the disk when the handler rejects the upload. \<open>uploadFile\<close>
  (main.go) answers 400, makes no driver call and leaves the database as it was for
  every upload larger than the configured maximum, with the disk as gin's \<open>FormFile\<close>
  left it (unchanged when the file parts hold at most 32 MiB); it looks at no extension,
  and stores any other upload as a product document when the form is read, the upload
  opens and the driver call goes through.
\<close>

theorem upload_rejections:
  "(UMethod r = ''POST'' \<and> firstFile r ''image'' = Some p
      \<and> \<not> uploadChecks lib (Base (ClientFilename p)) (int (length (Content p))) \<longrightarrow>
      statusOf (fst (uploadHandler lib d r)) = Some StatusBadRequest
      \<and> snd (uploadHandler lib d r) = snd (ParseMultipartForm MaxFileSize d r)
      \<and> (\<forall>q. q \<noteq> TempName d \<longrightarrow> Files (snd (uploadHandler lib d r)) q = Files d q)
      \<and> (fileBytes (Parts r) \<le> MaxFileSize \<longrightarrow> snd (uploadHandler lib d r) = d)
      \<and> (ParseErr r = None \<and> int (length (Content p)) > MaxFileSize \<longrightarrow>
           Files (snd (uploadHandler lib d r)) (TempName d) \<noteq> None))
   \<and> (firstFile r' ''file'' = Some p' \<and> int (length (Content p')) > maxFileSize \<longrightarrow>
        statusOf (fst (uploadFile maxFileSize openErr readErr env d db r'))
          = Some StatusBadRequest
        \<and> snd (uploadFile maxFileSize openErr readErr env d db r')
            = (snd (ParseMultipartForm defaultMultipartMemory d r'), db, [])
        \<and> (fileBytes (Parts r') \<le> defaultMultipartMemory \<longrightarrow>
             snd (uploadFile maxFileSize openErr readErr env d db r') = (d, db, []))
        \<and> (formRead r' \<and> OpenErr d = None \<longrightarrow>
             fst (uploadFile maxFileSize openErr readErr env d db r')
               = ginError StatusBadRequest ''File too large''))
   \<and> (formRead r' \<and> OpenErr d = None \<and> firstFile r' ''file'' = Some p'
        \<and> int (length (Content p')) \<le> maxFileSize
        \<and> NewID env \<notin> ID ` set (DB.products db) \<and> DBErr env 0 = None \<longrightarrow>
        (\<exists>doc. uploadFile maxFileSize None None env d db r'
            = (WriteJSON StatusOK
                 (JObject [(''message'',
                              JString ''File uploaded and saved to database successfully''),
                           (''id'', JString (Hex (NewID env))),
                           (''filename'', JString (Base (ClientFilename p')))]),
               snd (ParseMultipartForm defaultMultipartMemory d r'),
               db\<lparr>DB.products := DB.products db @ [doc]\<rparr>,
               [DBCall Background ''products'' ''InsertOne''])
          \<and> Product.Name doc = Base (ClientFilename p') \<and> ImageData doc = Content p'))"
proof -
  have a: "statusOf (fst (uploadHandler lib d r)) = Some StatusBadRequest
      \<and> snd (uploadHandler lib d r) = snd (ParseMultipartForm MaxFileSize d r)
      \<and> (\<forall>q. q \<noteq> TempName d \<longrightarrow> Files (snd (uploadHandler lib d r)) q = Files d q)
      \<and> (fileBytes (Parts r) \<le> MaxFileSize \<longrightarrow> snd (uploadHandler lib d r) = d)
      \<and> (ParseErr r = None \<and> int (length (Content p)) > MaxFileSize \<longrightarrow>
           Files (snd (uploadHandler lib d r)) (TempName d) \<noteq> None)"
    if "UMethod r = ''POST''" "firstFile r ''image'' = Some p"
      "\<not> uploadChecks lib (Base (ClientFilename p)) (int (length (Content p)))"
    using uploadHandler_rejects [OF that, of d] that(1,2)
      uploadHandler_spooled [where r = r and p = p and lib = lib and d = d]
      ParseMultipartForm_in_memory [of r MaxFileSize d]
    by (simp add: ParseMultipartForm_frame)
  have b: "statusOf (fst (uploadFile maxFileSize openErr readErr env d db r'))
          = Some StatusBadRequest
        \<and> snd (uploadFile maxFileSize openErr readErr env d db r')
            = (snd (ParseMultipartForm defaultMultipartMemory d r'), db, [])
        \<and> (fileBytes (Parts r') \<le> defaultMultipartMemory \<longrightarrow>
             snd (uploadFile maxFileSize openErr readErr env d db r') = (d, db, []))
        \<and> (formRead r' \<and> OpenErr d = None \<longrightarrow>
             fst (uploadFile maxFileSize openErr readErr env d db r')
               = ginError StatusBadRequest ''File too large'')"
    if "firstFile r' ''file'' = Some p'" "int (length (Content p')) > maxFileSize"
    using uploadFile_rejects [OF that, of openErr readErr env d db]
      uploadFile_too_large [OF _ _ that, of d openErr readErr env db]
      ParseMultipartForm_in_memory [of r' defaultMultipartMemory d]
    by simp
  show ?thesis
    using a b uploadFile_ignores_extension [of r' d p' maxFileSize env db]
    by blast
qed

theorem upload_rejections_witness:
  "UMethod (exeUpload ''image'') = ''POST''
   \<and> firstFile (exeUpload ''image'') ''image''
       = Some \<lparr>FormName = ''image'', ClientFilename = ''setup.exe'', Content = ''MZ00''\<rparr>
   \<and> \<not> uploadChecks lib0 (Base ''setup.exe'') 4
   \<and> statusOf (fst (uploadHandler lib0 disk0 (exeUpload ''image''))) = Some 400
   \<and> snd (uploadHandler lib0 disk0 (exeUpload ''image'')) = disk0
   \<and> firstFile (bigUpload ''file'') ''file''
       = Some \<lparr>FormName = ''file'', ClientFilename = ''big.png'',
               Content = replicate 10485761 (CHR ''x'')\<rparr>
   \<and> 10485761 > defaultMaxFileSize
   \<and> uploadFile defaultMaxFileSize None None env0 disk0 emptyDB (bigUpload ''file'')
       = (WriteJSON 400 (JObject [(''error'', JString ''File too large'')]), disk0, emptyDB, [])"
proof -
  have c: "\<not> uploadChecks lib0 (Base ''setup.exe'') 4"
    using exe_checks by (simp add: Base_examples)
  have f: "fileBytes (Parts (exeUpload ''image'')) \<le> MaxFileSize"
    "fileBytes (Parts (bigUpload ''file'')) \<le> defaultMultipartMemory"
    by (simp_all add: exeUpload_def bigUpload_def singleUpload_sel MaxFileSize_def
          defaultMultipartMemory_def)
  have o: "OpenErr disk0 = None"
    by (simp add: disk0_def)
  from upload_rejections [of "exeUpload ''image''"
      "\<lparr>FormName = ''image'', ClientFilename = ''setup.exe'', Content = ''MZ00''\<rparr>" lib0 disk0
      "bigUpload ''file''"
      "\<lparr>FormName = ''file'', ClientFilename = ''big.png'',
        Content = replicate 10485761 (CHR ''x'')\<rparr>"
      defaultMaxFileSize None None env0 emptyDB]
    c f o
  show ?thesis
    by (auto simp add: exeUpload_def bigUpload_def firstFile_single singleUpload_sel
          defaultMaxFileSize_def ginError_def Status_defs prod_eq_iff)
qed

text \<open>
  C6 as stated fails. In \<open>uploadFile\<close> an upload named \<open>setup.exe\<close> is answered 200 and
  its bytes are stored in the products collection. In \<open>uploadHandler\<close> an upload of
  10 MiB and one byte is answered 400 after the multipart reader has written all of it
  to its temporary file.
\<close>

theorem upload_rejections_counterexample:
  "firstFile (exeUpload ''file'') ''file''
     = Some \<lparr>FormName = ''file'', ClientFilename = ''setup.exe'', Content = ''MZ00''\<rparr>
   \<and> asciiToLower (last (Split ''setup.exe'' (CHR ''.''))) \<notin> {''png'', ''jpg'', ''jpeg'', ''gif''}
   \<and> statusOf (fst (uploadFile defaultMaxFileSize None None env0 disk0 emptyDB
                       (exeUpload ''file'')))
       = Some 200
   \<and> map ImageData
        (DB.products (fst (snd (snd (uploadFile defaultMaxFileSize None None env0 disk0 emptyDB
                                       (exeUpload ''file''))))))
       = [''MZ00'']
   \<and> firstFile (bigUpload ''image'') ''image''
       = Some \<lparr>FormName = ''image'', ClientFilename = ''big.png'',
               Content = replicate 10485761 (CHR ''x'')\<rparr>
   \<and> MaxFileSize < 10485761
   \<and> statusOf (fst (uploadHandler lib0 disk0 (bigUpload ''image''))) = Some 400
   \<and> Files disk0 ''/tmp/multipart-1'' = None
   \<and> Files (snd (uploadHandler lib0 disk0 (bigUpload ''image''))) ''/tmp/multipart-1''
       = Some (replicate 10485761 (CHR ''x''))"
  by (simp add: uploadFile_def exeUpload_def bigUpload_def firstFile_single upload_eval
        env0_def emptyDB_def defaultMaxFileSize_def InsertOne_ctx_def InsertOne_def
        NilObjectID_def writeError_def)

section \<open>Properties: creating products\<close>

lemma createProduct_pure_rejects:
  assumes "ProductInput.Name input = [] \<or> ProductInput.Price input \<le> 0"
  shows "createProduct_pure env db (Decoded input)
           = (writeError StatusBadRequest ''Nama dan harga produk wajib diisi'', db)"
  using assms by (auto simp: createProduct_pure_def)

lemma createProduct_gin_rejects:
  assumes "ProductInput.Name input = [] \<or> ProductInput.Price input = 0"
  shows "createProduct_gin env db (Decoded input)
           = (ginError StatusBadRequest ''Nama dan harga produk wajib diisi'', db)"
  using assms by (auto simp: createProduct_gin_def ShouldBindJSON_def ProductInput_required_def Let_def)

lemma createProduct_inserts:
  assumes "ID product = NilObjectID" and "NewID env \<notin> ID ` set (DB.products db)"
    and "DBErr env 0 = None"
  shows "\<exists>doc. createProduct None env db (Decoded product)
            = (WriteJSON StatusCreated (JObject [(''product'', Product_json doc)]),
               db\<lparr>DB.products := DB.products db @ [doc]\<rparr>)
          \<and> Product.Name doc = Product.Name product \<and> Product.Price doc = Product.Price product"
  using assms by (auto simp: createProduct_def ShouldBindJSON_def InsertOne_def Let_def)

text \<open>
  C1, as the code has it. \<open>createProduct\<close> of main-pure.go answers 400 and inserts
  nothing when the name is empty or the price is not positive. \<open>createProduct\<close> of the
  gin revision with \<open>ProductInput\<close> answers 400 and inserts nothing when the name is empty
  or the price is zero (the \<open>required\<close> binding). \<open>createProduct\<close> of main.go checks
  neither: without Cloudinary and without a driver failure it stores the decoded product
  with the name and price of the body.
\<close>

theorem create_product_validation:
  "(ProductInput.Name input = [] \<or> ProductInput.Price input \<le> 0 \<longrightarrow>
      createProduct_pure env db (Decoded input)
        = (writeError StatusBadRequest ''Nama dan harga produk wajib diisi'', db))
   \<and> (ProductInput.Name input = [] \<or> ProductInput.Price input = 0 \<longrightarrow>
        createProduct_gin env db (Decoded input)
          = (ginError StatusBadRequest ''Nama dan harga produk wajib diisi'', db))
   \<and> (ID product = NilObjectID \<and> NewID env' \<notin> ID ` set (DB.products db') \<and> DBErr env' 0 = None
        \<longrightarrow> (\<exists>doc. createProduct None env' db' (Decoded product)
            = (WriteJSON StatusCreated (JObject [(''product'', Product_json doc)]),
               db'\<lparr>DB.products := DB.products db' @ [doc]\<rparr>)
          \<and> Product.Name doc = Product.Name product \<and> Product.Price doc = Product.Price product))"
  using createProduct_pure_rejects [of input env db] createProduct_gin_rejects [of input env db]
    createProduct_inserts [of product env' db']
  by blast

theorem create_product_validation_witness:
  "(ProductInput.Name negativeInput = [] \<or> ProductInput.Price negativeInput \<le> 0)
   \<and> createProduct_pure env0 emptyPureDB (Decoded negativeInput)
       = (WriteJSON 400 (JObject [(''error'', JString ''Nama dan harga produk wajib diisi'')]),
          emptyPureDB)
   \<and> (ProductInput.Name (negativeInput\<lparr>ProductInput.Price := 0\<rparr>) = []
        \<or> ProductInput.Price (negativeInput\<lparr>ProductInput.Price := 0\<rparr>) = 0)
   \<and> createProduct_gin env0 emptyPureDB (Decoded (negativeInput\<lparr>ProductInput.Price := 0\<rparr>))
       = (WriteJSON 400 (JObject [(''error'', JString ''Nama dan harga produk wajib diisi'')]),
          emptyPureDB)
   \<and> ID blankProduct = NilObjectID \<and> NewID env0 \<notin> ID ` set (DB.products emptyDB)
   \<and> DBErr env0 0 = None
   \<and> statusOf (fst (createProduct None env0 emptyDB (Decoded blankProduct))) = Some 201"
proof -
  have a: "ProductInput.Name negativeInput = [] \<or> ProductInput.Price negativeInput \<le> 0"
    by (simp add: negativeInput_def)
  have b: "ProductInput.Name (negativeInput\<lparr>ProductInput.Price := 0\<rparr>) = []
        \<or> ProductInput.Price (negativeInput\<lparr>ProductInput.Price := 0\<rparr>) = 0"
    by simp
  have c: "ID blankProduct = NilObjectID \<and> NewID env0 \<notin> ID ` set (DB.products emptyDB)
      \<and> DBErr env0 0 = None"
    by (simp add: blankProduct_def env0_def emptyDB_def)
  from create_product_validation [of negativeInput env0 emptyPureDB blankProduct env0 emptyDB]
    create_product_validation [of "negativeInput\<lparr>ProductInput.Price := 0\<rparr>" env0 emptyPureDB blankProduct env0 emptyDB]
    a b c
  show ?thesis
    by (auto simp: writeError_def ginError_def Response_json_def omitempty_def Status_defs)
qed

text \<open>
  C1 as stated fails: \<open>createProduct\<close> of main.go stores a product with an empty name
  and price 0, and the gin revision stores one with price -5; both answer 201.
\<close>

theorem create_product_unvalidated_counterexample:
  "Product.Name blankProduct = [] \<and> Product.Price blankProduct \<le> 0
   \<and> statusOf (fst (createProduct None env0 emptyDB (Decoded blankProduct))) = Some 201
   \<and> map Product.Name (DB.products (snd (createProduct None env0 emptyDB (Decoded blankProduct))))
       = [[]]
   \<and> ProductInput.Price negativeInput \<le> 0
   \<and> statusOf (fst (createProduct_gin env0 emptyPureDB (Decoded negativeInput))) = Some 201
   \<and> map PureProduct.Price
        (PureDB.products (snd (createProduct_gin env0 emptyPureDB (Decoded negativeInput))))
       = [- 5]"
  by (simp add: createProduct_def createProduct_gin_def blankProduct_def negativeInput_def
        env0_def emptyDB_def emptyPureDB_def ShouldBindJSON_def ProductInput_required_def
        InsertOne_def NilObjectID_def Let_def Status_defs)

section \<open>Properties: registration\<close>

lemma FindOne_absent:
  assumes "\<forall>a\<in>set coll. \<not> P a"
  shows "\<exists>err. FindOne fail P coll = Inl err"
proof (cases "find P coll")
  case None
  then show ?thesis by (auto simp: FindOne_def split: option.splits)
next
  case (Some a)
  then have "a \<in> set coll \<and> P a" by (auto simp: find_Some_iff)
  with assms show ?thesis by blast
qed

lemma FindOne_present:
  assumes "\<exists>a\<in>set coll. P a"
  shows "\<exists>a. FindOne None P coll = Inr a \<and> a \<in> set coll \<and> P a"
  using assms by (auto simp: FindOne_def find_None_iff find_Some_iff split: option.splits)

lemma register_created:
  assumes "validRegisterRequest req"
    and "\<forall>a\<in>set (DB.admins db). Admin.Username a \<noteq> RegisterRequest.Username req"
    and "GenerateFromPassword crypto (Salt env) (RegisterRequest.Password req) = Some h"
    and "DBErr env 1 = None" and "NewID env \<notin> ID ` set (DB.admins db)"
  shows "register crypto env db (Decoded req)
           = (WriteJSON StatusCreated
                (JObject [(''message'', JString ''Registration successful''),
                          (''admin'',
                             Admin_json \<lparr>ID = NewID env,
                                Admin.Username = RegisterRequest.Username req,
                                Admin.Email = RegisterRequest.Email req,
                                Admin.Password = [],
                                Admin.CreatedAt = Clock env 0\<rparr>)]),
              db\<lparr>DB.admins := DB.admins db
                    @ [\<lparr>ID = NewID env,
                        Admin.Username = RegisterRequest.Username req,
                        Admin.Email = RegisterRequest.Email req,
                        Admin.Password = h,
                        Admin.CreatedAt = Clock env 0\<rparr>]\<rparr>)"
proof -
  obtain err where "FindOne (DBErr env 0) (\<lambda>a. Admin.Username a = RegisterRequest.Username req)
      (DB.admins db) = Inl err"
    using FindOne_absent [of "DB.admins db" "\<lambda>a. Admin.Username a = RegisterRequest.Username req"]
      assms(2) by blast
  with assms(1,3,4,5) show ?thesis
    by (auto simp: register_def ShouldBindJSON_def RegisterRequest_required_def
          validRegisterRequest_def InsertOne_def Let_def)
qed

lemma register_conflict:
  assumes "validRegisterRequest req"
    and "\<exists>a\<in>set (DB.admins db). Admin.Username a = RegisterRequest.Username req"
    and "DBErr env 0 = None"
  shows "register crypto env db (Decoded req)
           = (ginError StatusConflict ''Username already exists'', db)"
proof -
  obtain a where "FindOne (DBErr env 0) (\<lambda>a. Admin.Username a = RegisterRequest.Username req)
      (DB.admins db) = Inr a"
    using FindOne_present [of "DB.admins db" "\<lambda>a. Admin.Username a = RegisterRequest.Username req"]
      assms(2,3) by auto
  with assms(1) show ?thesis
    by (auto simp: register_def ShouldBindJSON_def RegisterRequest_required_def
          validRegisterRequest_def Let_def)
qed

lemma createAdmin_pure_created:
  assumes "validAdminInput inp"
    and "\<forall>a\<in>set (PureDB.admins db). PureAdmin.Username a \<noteq> AdminInput.Username inp"
    and "GenerateFromPassword crypto (Salt env) (AdminInput.Password inp) = Some h"
    and "DBErr env 1 = None" and "NewID env \<notin> ID ` set (PureDB.admins db)"
  shows "createAdmin_pure crypto env db (Decoded inp)
           = (WriteJSON StatusCreated
                (JObject [(''_id'', JString (Hex (NewID env))),
                          (''username'', JString (AdminInput.Username inp)),
                          (''message'', JString ''Admin created successfully'')]),
              db\<lparr>PureDB.admins := PureDB.admins db
                    @ [\<lparr>ID = NewID env,
                        PureAdmin.Username = AdminInput.Username inp,
                        PureAdmin.Password = h\<rparr>]\<rparr>)"
proof -
  obtain err where "FindOne (DBErr env 0) (\<lambda>a. PureAdmin.Username a = AdminInput.Username inp)
      (PureDB.admins db) = Inl err"
    using FindOne_absent [of "PureDB.admins db" "\<lambda>a. PureAdmin.Username a = AdminInput.Username inp"]
      assms(2) by blast
  with assms(1,3,4,5) show ?thesis
    by (auto simp: createAdmin_pure_def validAdminInput_def InsertOne_def Let_def)
qed

lemma createAdmin_pure_duplicate:
  assumes "validAdminInput inp"
    and "\<exists>a\<in>set (PureDB.admins db). PureAdmin.Username a = AdminInput.Username inp"
    and "DBErr env 0 = None"
  shows "createAdmin_pure crypto env db (Decoded inp)
           = (writeError StatusBadRequest ''Username sudah ada'', db)"
proof -
  obtain a where "FindOne (DBErr env 0) (\<lambda>a. PureAdmin.Username a = AdminInput.Username inp)
      (PureDB.admins db) = Inr a"
    using FindOne_present [of "PureDB.admins db" "\<lambda>a. PureAdmin.Username a = AdminInput.Username inp"]
      assms(2,3) by auto
  with assms(1) show ?thesis
    by (auto simp: createAdmin_pure_def validAdminInput_def Let_def)
qed

lemma register_twice_aux:
  assumes "validRegisterRequest req" and "validRegisterRequest req'"
    and "RegisterRequest.Username req' = RegisterRequest.Username req"
    and "\<forall>a\<in>set (DB.admins db). Admin.Username a \<noteq> RegisterRequest.Username req"
    and "GenerateFromPassword crypto (Salt env) (RegisterRequest.Password req) \<noteq> None"
    and "DBErr env 1 = None" and "NewID env \<notin> ID ` set (DB.admins db)"
    and "DBErr env' 0 = None"
  shows "statusOf (fst (register crypto env db (Decoded req))) = Some StatusCreated
     \<and> length (DB.admins (snd (register crypto env db (Decoded req))))
         = Suc (length (DB.admins db))
     \<and> register crypto env' (snd (register crypto env db (Decoded req))) (Decoded req')
         = (ginError StatusConflict ''Username already exists'',
            snd (register crypto env db (Decoded req)))
     \<and> storedWithUsername (RegisterRequest.Username req)
          (DB.admins (snd (register crypto env db (Decoded req)))) = 1"
proof -
  from assms(5) obtain h where
    h: "GenerateFromPassword crypto (Salt env) (RegisterRequest.Password req) = Some h"
    by auto
  note first = register_created [OF assms(1,4) h assms(6,7)]
  have "\<exists>a\<in>set (DB.admins (snd (register crypto env db (Decoded req)))).
          Admin.Username a = RegisterRequest.Username req'"
    by (simp add: first assms(3))
  from register_conflict [OF assms(2) this assms(8)] assms(4) show ?thesis
    by (simp add: first storedWithUsername_def filter_empty_conv [THEN iffD2])
qed

lemma createAdmin_pure_twice_aux:
  assumes "validAdminInput inp" and "validAdminInput inp'"
    and "AdminInput.Username inp' = AdminInput.Username inp"
    and "\<forall>a\<in>set (PureDB.admins db). PureAdmin.Username a \<noteq> AdminInput.Username inp"
    and "GenerateFromPassword crypto (Salt env) (AdminInput.Password inp) \<noteq> None"
    and "DBErr env 1 = None" and "NewID env \<notin> ID ` set (PureDB.admins db)"
    and "DBErr env' 0 = None"
  shows "statusOf (fst (createAdmin_pure crypto env db (Decoded inp))) = Some StatusCreated
     \<and> length (PureDB.admins (snd (createAdmin_pure crypto env db (Decoded inp))))
         = Suc (length (PureDB.admins db))
     \<and> createAdmin_pure crypto env' (snd (createAdmin_pure crypto env db (Decoded inp))) (Decoded inp')
         = (writeError StatusBadRequest ''Username sudah ada'',
            snd (createAdmin_pure crypto env db (Decoded inp)))
     \<and> storedWithUsernamePure (AdminInput.Username inp)
          (PureDB.admins (snd (createAdmin_pure crypto env db (Decoded inp)))) = 1"
proof -
  from assms(5) obtain h where
    h: "GenerateFromPassword crypto (Salt env) (AdminInput.Password inp) = Some h"
    by auto
  note first = createAdmin_pure_created [OF assms(1,4) h assms(6,7)]
  have "\<exists>a\<in>set (PureDB.admins (snd (createAdmin_pure crypto env db (Decoded inp)))).
          PureAdmin.Username a = AdminInput.Username inp'"
    by (simp add: first assms(3))
  from createAdmin_pure_duplicate [OF assms(2) this assms(8)] assms(4) show ?thesis
    by (simp add: first storedWithUsernamePure_def filter_empty_conv [THEN iffD2])
qed


text \<open>
  C2, as the code has it. Two registrations with the same user name, both with every
  required field filled in, starting from a collection without that user name, the hash
  and the insert of the first going through and the lookup of the second going through:
  the first answers 201 and adds one admin document; the second leaves the collection as
  it is and answers 409 in \<open>register\<close> and \<open>Controller.Register\<close>, and 400 in
  \<open>createAdmin\<close> of main-pure.go; one document has the user name afterwards.
\<close>

theorem register_twice:
  "(validRegisterRequest req \<and> validRegisterRequest req'
      \<and> RegisterRequest.Username req' = RegisterRequest.Username req
      \<and> (\<forall>a\<in>set (DB.admins db). Admin.Username a \<noteq> RegisterRequest.Username req)
      \<and> GenerateFromPassword crypto (Salt env) (RegisterRequest.Password req) \<noteq> None
      \<and> DBErr env 1 = None \<and> NewID env \<notin> ID ` set (DB.admins db) \<and> DBErr env' 0 = None
    \<longrightarrow>
      statusOf (fst (register crypto env db (Decoded req))) = Some StatusCreated
      \<and> length (DB.admins (snd (register crypto env db (Decoded req))))
          = Suc (length (DB.admins db))
      \<and> register crypto env' (snd (register crypto env db (Decoded req))) (Decoded req')
          = (ginError StatusConflict ''Username already exists'',
             snd (register crypto env db (Decoded req)))
      \<and> storedWithUsername (RegisterRequest.Username req)
           (DB.admins (snd (register crypto env db (Decoded req)))) = 1
      \<and> Controller_Register crypto env' (snd (Controller_Register crypto env db (Decoded req)))
            (Decoded req')
          = (ginError StatusConflict ''Username already exists'',
             snd (register crypto env db (Decoded req))))
   \<and> (validAdminInput inp \<and> validAdminInput inp'
      \<and> AdminInput.Username inp' = AdminInput.Username inp
      \<and> (\<forall>a\<in>set (PureDB.admins pdb). PureAdmin.Username a \<noteq> AdminInput.Username inp)
      \<and> GenerateFromPassword crypto (Salt env) (AdminInput.Password inp) \<noteq> None
      \<and> DBErr env 1 = None \<and> NewID env \<notin> ID ` set (PureDB.admins pdb) \<and> DBErr env' 0 = None
    \<longrightarrow>
      statusOf (fst (createAdmin_pure crypto env pdb (Decoded inp))) = Some StatusCreated
      \<and> length (PureDB.admins (snd (createAdmin_pure crypto env pdb (Decoded inp))))
          = Suc (length (PureDB.admins pdb))
      \<and> createAdmin_pure crypto env' (snd (createAdmin_pure crypto env pdb (Decoded inp)))
            (Decoded inp')
          = (writeError StatusBadRequest ''Username sudah ada'',
             snd (createAdmin_pure crypto env pdb (Decoded inp)))
      \<and> storedWithUsernamePure (AdminInput.Username inp)
           (PureDB.admins (snd (createAdmin_pure crypto env pdb (Decoded inp)))) = 1)"
  using register_twice_aux [of req req' db crypto env env']
    createAdmin_pure_twice_aux [of inp inp' pdb crypto env env']
  unfolding Controller_Register_def by blast

lemma alice_hyps:
  "validRegisterRequest (aliceRegister ''p'') \<and> validRegisterRequest (aliceRegister ''q'')
   \<and> RegisterRequest.Username (aliceRegister ''q'') = RegisterRequest.Username (aliceRegister ''p'')
   \<and> (\<forall>a\<in>set (DB.admins emptyDB). Admin.Username a \<noteq> RegisterRequest.Username (aliceRegister ''p''))
   \<and> GenerateFromPassword toyCrypto (Salt env0) (RegisterRequest.Password (aliceRegister ''p'')) \<noteq> None
   \<and> DBErr env0 1 = None \<and> NewID env0 \<notin> ID ` set (DB.admins emptyDB) \<and> DBErr env1 0 = None"
  by (simp add: validRegisterRequest_def aliceRegister_def emptyDB_def toyCrypto_def env0_def env1_def)

lemma alice_pure_hyps:
  "validAdminInput (aliceInput ''p'') \<and> validAdminInput (aliceInput ''q'')
   \<and> AdminInput.Username (aliceInput ''q'') = AdminInput.Username (aliceInput ''p'')
   \<and> (\<forall>a\<in>set (PureDB.admins emptyPureDB). PureAdmin.Username a \<noteq> AdminInput.Username (aliceInput ''p''))
   \<and> GenerateFromPassword toyCrypto (Salt env0) (AdminInput.Password (aliceInput ''p'')) \<noteq> None
   \<and> DBErr env0 1 = None \<and> NewID env0 \<notin> ID ` set (PureDB.admins emptyPureDB) \<and> DBErr env1 0 = None"
  by (simp add: validAdminInput_def aliceInput_def emptyPureDB_def toyCrypto_def env0_def env1_def)

theorem register_twice_witness:
  "validRegisterRequest (aliceRegister ''p'') \<and> validRegisterRequest (aliceRegister ''q'')
   \<and> RegisterRequest.Username (aliceRegister ''q'') = RegisterRequest.Username (aliceRegister ''p'')
   \<and> DB.admins emptyDB = []
   \<and> GenerateFromPassword toyCrypto (Salt env0) (RegisterRequest.Password (aliceRegister ''p'')) \<noteq> None
   \<and> DBErr env0 1 = None \<and> NewID env0 \<notin> ID ` set (DB.admins emptyDB) \<and> DBErr env1 0 = None
   \<and> validAdminInput (aliceInput ''p'') \<and> validAdminInput (aliceInput ''q'')
   \<and> AdminInput.Username (aliceInput ''q'') = AdminInput.Username (aliceInput ''p'')
   \<and> PureDB.admins emptyPureDB = []
   \<and> GenerateFromPassword toyCrypto (Salt env0) (AdminInput.Password (aliceInput ''p'')) \<noteq> None
   \<and> NewID env0 \<notin> ID ` set (PureDB.admins emptyPureDB)
   \<and> statusOf (fst (register toyCrypto env1 (snd (register toyCrypto env0 emptyDB
          (Decoded (aliceRegister ''p'')))) (Decoded (aliceRegister ''q'')))) = Some 409
   \<and> storedWithUsername ''alice''
        (DB.admins (snd (register toyCrypto env1 (snd (register toyCrypto env0 emptyDB
          (Decoded (aliceRegister ''p'')))) (Decoded (aliceRegister ''q''))))) = 1
   \<and> statusOf (fst (createAdmin_pure toyCrypto env1 (snd (createAdmin_pure toyCrypto env0
          emptyPureDB (Decoded (aliceInput ''p'')))) (Decoded (aliceInput ''q'')))) = Some 400
   \<and> storedWithUsernamePure ''alice''
        (PureDB.admins (snd (createAdmin_pure toyCrypto env1 (snd (createAdmin_pure toyCrypto env0
          emptyPureDB (Decoded (aliceInput ''p'')))) (Decoded (aliceInput ''q''))))) = 1"
proof -
  have u: "RegisterRequest.Username (aliceRegister ''p'') = ''alice''"
    "AdminInput.Username (aliceInput ''p'') = ''alice''"
    by (simp_all add: aliceRegister_def aliceInput_def)
  from register_twice [of "aliceRegister ''p''" "aliceRegister ''q''" emptyDB toyCrypto env0 env1
      "aliceInput ''p''" "aliceInput ''q''" emptyPureDB] alice_hyps alice_pure_hyps u
  show ?thesis
    by (simp add: ginError_def writeError_def Status_defs emptyDB_def emptyPureDB_def)
qed

text \<open>
  C2 as stated fails: the second \<open>createAdmin\<close> of main-pure.go answers 400, not 409; and
  two registrations with an empty password are both answered 400 and store no admin.
\<close>

theorem register_twice_counterexample:
  "statusOf (fst (createAdmin_pure toyCrypto env0 emptyPureDB (Decoded (aliceInput ''p''))))
     = Some 201
   \<and> statusOf (fst (createAdmin_pure toyCrypto env1
        (snd (createAdmin_pure toyCrypto env0 emptyPureDB (Decoded (aliceInput ''p''))))
        (Decoded (aliceInput ''p'')))) = Some 400
   \<and> statusOf (fst (register toyCrypto env0 emptyDB (Decoded (aliceRegister [])))) = Some 400
   \<and> statusOf (fst (register toyCrypto env1
        (snd (register toyCrypto env0 emptyDB (Decoded (aliceRegister []))))
        (Decoded (aliceRegister [])))) = Some 400
   \<and> DB.admins (snd (register toyCrypto env1
        (snd (register toyCrypto env0 emptyDB (Decoded (aliceRegister []))))
        (Decoded (aliceRegister [])))) = []"
  by (simp add: createAdmin_pure_def register_def aliceInput_def aliceRegister_def toyCrypto_def
        env0_def env1_def emptyPureDB_def emptyDB_def FindOne_def InsertOne_def NilObjectID_def
        ShouldBindJSON_def RegisterRequest_required_def Let_def writeError_def ginError_def
        Status_defs)

section \<open>Properties: stored passwords and what responses show\<close>

lemma register_stores_hash:
  "snd (register crypto env db (Decoded req)) = db
   \<or> (\<exists>a. snd (register crypto env db (Decoded req)) = db\<lparr>DB.admins := DB.admins db @ [a]\<rparr>
         \<and> GenerateFromPassword crypto (Salt env) (RegisterRequest.Password req)
             = Some (Admin.Password a))"
  by (auto simp: register_def ShouldBindJSON_def InsertOne_def Let_def
        split: sum.splits option.splits)

lemma Controller_CreateAdmin_stores_hash:
  "snd (Controller_CreateAdmin crypto env db (Decoded admin)) = db
   \<or> (\<exists>a. snd (Controller_CreateAdmin crypto env db (Decoded admin))
             = db\<lparr>DB.admins := DB.admins db @ [a]\<rparr>
         \<and> Admin.Password a
             = (case GenerateFromPassword crypto (Salt env) (Admin.Password admin) of
                  None \<Rightarrow> [] | Some h \<Rightarrow> h))"
  by (auto simp: Controller_CreateAdmin_def ShouldBindJSON_def InsertOne_def Let_def
        split: sum.splits option.splits)

lemma createAdmin_pure_stores_hash:
  "snd (createAdmin_pure crypto env pdb (Decoded inp)) = pdb
   \<or> (\<exists>a. snd (createAdmin_pure crypto env pdb (Decoded inp))
             = pdb\<lparr>PureDB.admins := PureDB.admins pdb @ [a]\<rparr>
         \<and> GenerateFromPassword crypto (Salt env) (AdminInput.Password inp)
             = Some (PureAdmin.Password a))"
  by (auto simp: createAdmin_pure_def InsertOne_def Let_def
        split: sum.splits option.splits)

lemma register_plain_stores_password:
  "snd (register_plain env db (Decoded req)) = db
   \<or> (\<exists>a. snd (register_plain env db (Decoded req)) = db\<lparr>DB.admins := DB.admins db @ [a]\<rparr>
         \<and> Admin.Password a = RegisterRequest.Password req)"
  by (auto simp: register_plain_def ShouldBindJSON_def InsertOne_def Let_def
        split: sum.splits option.splits)

lemma createAdmin_stores_password:
  "snd (createAdmin env db (Decoded admin)) = db
   \<or> (\<exists>a. snd (createAdmin env db (Decoded admin)) = db\<lparr>DB.admins := DB.admins db @ [a]\<rparr>
         \<and> Admin.Password a = Admin.Password admin)"
  by (auto simp: createAdmin_def ShouldBindJSON_def InsertOne_def Let_def
        split: sum.splits option.splits)

lemma getAdmins_stripped: "passwordStripped (getAdmins env db)"
  by (auto simp: passwordStripped_def getAdmins_def Find_def cursor_All_def ginError_def
        Admin_json_def list_all_iff split: option.splits sum.splits)

lemma getAdmins_pure_stripped: "passwordValues (responseBody (getAdmins_pure env pdb)) = []"
  by (auto simp: getAdmins_pure_def Find_def cursor_All_def writeError_def Response_json_def
        omitempty_def PureAdmin_json_def split: option.splits sum.splits)

lemma register_stripped: "passwordStripped (fst (register crypto env db body))"
  by (auto simp: passwordStripped_def register_def ShouldBindJSON_def InsertOne_def Let_def
        ginError_def Admin_json_def split: sum.splits option.splits Body.splits)

lemma register_plain_stripped: "passwordStripped (fst (register_plain env db body))"
  by (auto simp: passwordStripped_def register_plain_def ShouldBindJSON_def InsertOne_def Let_def
        ginError_def Admin_json_def split: sum.splits option.splits Body.splits)

lemma createAdmin_stripped: "passwordStripped (fst (createAdmin env db body))"
  by (auto simp: passwordStripped_def createAdmin_def ShouldBindJSON_def InsertOne_def Let_def
        ginError_def Admin_json_def split: sum.splits option.splits Body.splits)

lemma Controller_CreateAdmin_stripped:
  "passwordStripped (fst (Controller_CreateAdmin crypto env db body))"
  by (auto simp: passwordStripped_def Controller_CreateAdmin_def ShouldBindJSON_def InsertOne_def
        Let_def ginError_def Admin_json_def split: sum.splits option.splits Body.splits)

lemma createAdmin_pure_stripped:
  "passwordValues (responseBody (fst (createAdmin_pure crypto env pdb body))) = []"
  by (auto simp: createAdmin_pure_def InsertOne_def Let_def writeError_def Response_json_def
        omitempty_def split: sum.splits option.splits Body.splits)


text \<open>
  C3, as the code has it. When they store an admin, \<open>register\<close> of main.go,
  \<open>Controller.Register\<close> and \<open>createAdmin\<close> of main-pure.go store the hash that
  \<open>bcrypt.GenerateFromPassword\<close> returned for the password of the payload, and
  \<open>Controller.CreateAdmin\<close> stores that hash, or the empty string when bcrypt failed. The
  revision of part 006 stores the password of the payload as it is, in \<open>register\<close> and in
  \<open>createAdmin\<close>. In every response of these handlers and of the \<open>getAdmins\<close> handlers,
  a key \<open>password\<close> is absent or carries the empty string.
\<close>

theorem admin_password_storage:
  "(snd (register crypto env db (Decoded req)) = db
    \<or> (\<exists>a. snd (register crypto env db (Decoded req)) = db\<lparr>DB.admins := DB.admins db @ [a]\<rparr>
          \<and> GenerateFromPassword crypto (Salt env) (RegisterRequest.Password req)
              = Some (Admin.Password a)))
   \<and> (snd (Controller_Register crypto env db (Decoded req)) = db
    \<or> (\<exists>a. snd (Controller_Register crypto env db (Decoded req))
              = db\<lparr>DB.admins := DB.admins db @ [a]\<rparr>
          \<and> GenerateFromPassword crypto (Salt env) (RegisterRequest.Password req)
              = Some (Admin.Password a)))
   \<and> (snd (Controller_CreateAdmin crypto env db (Decoded admin)) = db
    \<or> (\<exists>a. snd (Controller_CreateAdmin crypto env db (Decoded admin))
              = db\<lparr>DB.admins := DB.admins db @ [a]\<rparr>
          \<and> Admin.Password a
              = (case GenerateFromPassword crypto (Salt env) (Admin.Password admin) of
                   None \<Rightarrow> [] | Some h \<Rightarrow> h)))
   \<and> (snd (createAdmin_pure crypto env pdb (Decoded inp)) = pdb
    \<or> (\<exists>a. snd (createAdmin_pure crypto env pdb (Decoded inp))
              = pdb\<lparr>PureDB.admins := PureDB.admins pdb @ [a]\<rparr>
          \<and> GenerateFromPassword crypto (Salt env) (AdminInput.Password inp)
              = Some (PureAdmin.Password a)))
   \<and> (snd (register_plain env db (Decoded req)) = db
    \<or> (\<exists>a. snd (register_plain env db (Decoded req)) = db\<lparr>DB.admins := DB.admins db @ [a]\<rparr>
          \<and> Admin.Password a = RegisterRequest.Password req))
   \<and> (snd (createAdmin env db (Decoded admin)) = db
    \<or> (\<exists>a. snd (createAdmin env db (Decoded admin)) = db\<lparr>DB.admins := DB.admins db @ [a]\<rparr>
          \<and> Admin.Password a = Admin.Password admin))
   \<and> passwordStripped (getAdmins env db)
   \<and> passwordStripped (Controller_GetAdmins env db)
   \<and> passwordValues (responseBody (getAdmins_pure env pdb)) = []
   \<and> passwordStripped (fst (register crypto env db body))
   \<and> passwordStripped (fst (Controller_Register crypto env db body))
   \<and> passwordStripped (fst (register_plain env db body))
   \<and> passwordStripped (fst (createAdmin env db abody))
   \<and> passwordStripped (fst (Controller_CreateAdmin crypto env db abody))
   \<and> passwordValues (responseBody (fst (createAdmin_pure crypto env pdb pbody))) = []"
  unfolding Controller_Register_def Controller_GetAdmins_def
  using register_stores_hash [of crypto env db req]
    Controller_CreateAdmin_stores_hash [of crypto env db admin]
    createAdmin_pure_stores_hash [of crypto env pdb inp]
    register_plain_stores_password [of env db req]
    createAdmin_stores_password [of env db admin]
    getAdmins_stripped [of env db] getAdmins_pure_stripped [of env pdb]
    register_stripped [of crypto env db body] register_plain_stripped [of env db body]
    createAdmin_stripped [of env db abody]
    Controller_CreateAdmin_stripped [of crypto env db abody]
    createAdmin_pure_stripped [of crypto env pdb pbody]
  by blast

theorem admin_password_storage_witness:
  "map Admin.Password (DB.admins (snd (register toyCrypto env0 emptyDB
       (Decoded (aliceRegister ''pw'')))))
     = [''$toy$NaCl$wp'']
   \<and> GenerateFromPassword toyCrypto (Salt env0) ''pw'' = Some ''$toy$NaCl$wp''
   \<and> map Admin.Password (DB.admins (snd (Controller_CreateAdmin toyCrypto env0 emptyDB
       (Decoded bobAdmin))))
     = [''$toy$NaCl$terces'']
   \<and> responseBody (getAdmins env1 (snd (register toyCrypto env0 emptyDB
       (Decoded (aliceRegister ''pw'')))))
     = JObject [(''admins'', JArray [JObject
         [(''id'', JString ''65a000000000000000000001''), (''username'', JString ''alice''),
          (''email'', JString ''a@x.com''), (''password'', JString []),
          (''created_at'', JInt 1700000000000000000)]])]
   \<and> passwordStripped (getAdmins env1 (snd (register toyCrypto env0 emptyDB
       (Decoded (aliceRegister ''pw'')))))"
  using admin_password_storage [of toyCrypto env0 emptyDB "aliceRegister ''pw''" bobAdmin
      emptyPureDB "aliceInput ''pw''" "Decoded (aliceRegister ''pw'')" "Decoded bobAdmin"
      "Decoded (aliceInput ''pw'')"]
    admin_password_storage [of toyCrypto env1
      "snd (register toyCrypto env0 emptyDB (Decoded (aliceRegister ''pw'')))"
      "aliceRegister ''pw''" bobAdmin
      emptyPureDB "aliceInput ''pw''" "Decoded (aliceRegister ''pw'')" "Decoded bobAdmin"
      "Decoded (aliceInput ''pw'')"]
  by (simp add: register_def Controller_CreateAdmin_def getAdmins_def aliceRegister_def
        bobAdmin_def toyCrypto_def env0_def env1_def emptyDB_def FindOne_def InsertOne_def
        Find_def cursor_All_def NilObjectID_def ShouldBindJSON_def RegisterRequest_required_def
        Let_def Admin_json_def)

text \<open>
  C3 as stated fails: \<open>createAdmin\<close> (main.go, part 006) stores the password of the
  payload itself.
\<close>

theorem create_admin_plaintext_counterexample:
  "Admin.Password bobAdmin = ''secret''
   \<and> statusOf (fst (createAdmin env0 emptyDB (Decoded bobAdmin))) = Some 201
   \<and> map Admin.Password (DB.admins (snd (createAdmin env0 emptyDB (Decoded bobAdmin))))
       = [''secret'']"
  by (simp add: createAdmin_def bobAdmin_def env0_def emptyDB_def InsertOne_def NilObjectID_def
        ShouldBindJSON_def Let_def Status_defs)

section \<open>Properties: login\<close>

lemma aliceDB_eq:
  "aliceDB = \<lparr>DB.products = [],
      DB.admins = [aliceAdmin]\<rparr>"
  by (simp add: aliceDB_def aliceAdmin_def register_def aliceRegister_def toyCrypto_def env0_def emptyDB_def
        FindOne_def InsertOne_def NilObjectID_def ShouldBindJSON_def RegisterRequest_required_def
        Let_def)

lemma alicePureDB_eq:
  "alicePureDB = \<lparr>PureDB.products = [],
      PureDB.admins = [alicePureAdmin]\<rparr>"
  by (simp add: alicePureDB_def alicePureAdmin_def createAdmin_pure_def aliceInput_def toyCrypto_def env0_def
        emptyPureDB_def FindOne_def InsertOne_def NilObjectID_def Let_def)

lemma twoBobsDB_eq:
  "twoBobsDB = \<lparr>DB.products = [],
      DB.admins = [\<lparr>ID = ObjectID ''65a000000000000000000001'', Admin.Username = ''bob'',
                    Admin.Email = ''b@x.com'', Admin.Password = ''$toy$NaCl$terces'',
                    Admin.CreatedAt = 1700000000000000000\<rparr>,
                  \<lparr>ID = ObjectID ''65a000000000000000000002'', Admin.Username = ''bob'',
                    Admin.Email = ''b@x.com'', Admin.Password = ''$toy$NaCl$rehto'',
                    Admin.CreatedAt = 1700000000000000000\<rparr>]\<rparr>"
  by (simp add: twoBobsDB_def Controller_CreateAdmin_def bobAdmin_def toyCrypto_def env0_def
        env1_def emptyDB_def InsertOne_def NilObjectID_def ShouldBindJSON_def Let_def)

lemma find_unique:
  assumes "a \<in> set coll" and "length (filter (\<lambda>x. f x = f a) coll) = 1"
  shows "find (\<lambda>x. f x = f a) coll = Some a"
  using assms
proof (induction coll)
  case Nil
  then show ?case by simp
next
  case (Cons x xs)
  show ?case
  proof (cases "f x = f a")
    case True
    with Cons.prems(2) have "filter (\<lambda>x. f x = f a) xs = []"
      by simp
    with Cons.prems(1) True have "x = a"
      by (auto simp: filter_empty_conv)
    with True show ?thesis by simp
  next
    case False
    with Cons show ?thesis by auto
  qed
qed

lemma login_db_unchanged: "snd (login crypto key env db body) = db"
  by (auto simp: login_def Let_def split: sum.splits DBError.splits option.splits)

lemma Controller_Login_db_unchanged: "snd (Controller_Login crypto key env db body) = db"
  by (auto simp: Controller_Login_def Let_def split: sum.splits option.splits)

lemma loginAdmin_db_unchanged: "snd (loginAdmin crypto env pdb body) = pdb"
  by (auto simp: loginAdmin_def Let_def split: sum.splits option.splits Body.splits)

lemma bind_login:
  "u \<noteq> [] \<Longrightarrow> pw \<noteq> [] \<Longrightarrow>
   ShouldBindJSON ''LoginRequest'' LoginRequest_required (Decoded (loginRequest u pw))
     = Inr (loginRequest u pw)"
  by (simp add: ShouldBindJSON_def LoginRequest_required_def loginRequest_def)

lemma login_empty:
  assumes "u = [] \<or> pw = []"
  shows "statusOf (fst (login crypto key env db (Decoded (loginRequest u pw))))
           = Some StatusBadRequest"
    and "statusOf (fst (Controller_Login crypto key env db (Decoded (loginRequest u pw))))
           = Some StatusBadRequest"
    and "loginAdmin crypto env pdb (Decoded (loginInput u pw))
           = (writeError StatusBadRequest ''Username dan password wajib diisi'', pdb)"
proof -
  have "\<exists>e. ShouldBindJSON ''LoginRequest'' LoginRequest_required (Decoded (loginRequest u pw))
          = Inl e"
    using assms
    by (auto simp add: ShouldBindJSON_def LoginRequest_required_def loginRequest_def Let_def)
  then obtain e where
    e: "ShouldBindJSON ''LoginRequest'' LoginRequest_required (Decoded (loginRequest u pw)) = Inl e"
    by blast
  show "statusOf (fst (login crypto key env db (Decoded (loginRequest u pw))))
           = Some StatusBadRequest"
    by (simp add: login_def e ginError_def)
  show "statusOf (fst (Controller_Login crypto key env db (Decoded (loginRequest u pw))))
           = Some StatusBadRequest"
    by (simp add: Controller_Login_def e ginError_def)
  show "loginAdmin crypto env pdb (Decoded (loginInput u pw))
           = (writeError StatusBadRequest ''Username dan password wajib diisi'', pdb)"
    using assms by (auto simp add: loginAdmin_def loginInput_def)
qed

lemma login_unknown:
  assumes "u \<noteq> []" and "pw \<noteq> []" and "DBErr env 0 = None"
    and "\<forall>a\<in>set (DB.admins db). Admin.Username a \<noteq> u"
  shows "login crypto key env db (Decoded (loginRequest u pw))
           = (ginError StatusUnauthorized ''Invalid credentials'', db)"
    and "Controller_Login crypto key env db (Decoded (loginRequest u pw))
           = (ginError StatusUnauthorized ''Invalid credentials'', db)"
proof -
  have "find (\<lambda>a. Admin.Username a = u) (DB.admins db) = None"
    using assms(4) by (simp add: find_None_iff)
  then have f: "FindOne (DBErr env 0) (\<lambda>a. Admin.Username a = u) (DB.admins db) = Inl ErrNoDocuments"
    using assms(3) by (simp add: FindOne_def)
  show "login crypto key env db (Decoded (loginRequest u pw))
           = (ginError StatusUnauthorized ''Invalid credentials'', db)"
    using f bind_login [OF assms(1,2)] by (simp add: login_def loginRequest_def)
  show "Controller_Login crypto key env db (Decoded (loginRequest u pw))
           = (ginError StatusUnauthorized ''Invalid credentials'', db)"
    using f bind_login [OF assms(1,2)] by (simp add: Controller_Login_def loginRequest_def)
qed

lemma login_known:
  assumes "Admin.Username admin \<noteq> []" and "pw \<noteq> []" and "DBErr env 0 = None"
    and "admin \<in> set (DB.admins db)" and "storedWithUsername (Admin.Username admin) (DB.admins db) = 1"
  shows "login crypto key env db (Decoded (loginRequest (Admin.Username admin) pw))
           = (if \<not> CompareHashAndPassword crypto (Admin.Password admin) pw
              then (ginError StatusUnauthorized ''Invalid credentials'', db)
              else case Encrypt crypto key
                     \<lparr>Subject = Hex (ID admin), IssuedAt = Clock env 0,
                      Expiration = Clock env 0 + 24 * Hour\<rparr> ''pitipaw-admin'' of
                   None \<Rightarrow> (ginError StatusInternalServerError ''Failed to generate token'', db)
                 | Some token \<Rightarrow>
                     (WriteJSON StatusOK
                        (JObject [(''message'', JString ''Login successful''),
                                  (''admin'', Admin_json (admin\<lparr>Admin.Password := []\<rparr>)),
                                  (''token'', JString token)]), db))"
    and "Controller_Login crypto key env db (Decoded (loginRequest (Admin.Username admin) pw))
           = login crypto key env db (Decoded (loginRequest (Admin.Username admin) pw))"
proof -
  have f: "FindOne (DBErr env 0) (\<lambda>a. Admin.Username a = Admin.Username admin) (DB.admins db)
             = Inr admin"
    using assms(3) find_unique [OF assms(4), of "Admin.Username"] assms(5)
    by (simp add: FindOne_def storedWithUsername_def)
  show "login crypto key env db (Decoded (loginRequest (Admin.Username admin) pw))
           = (if \<not> CompareHashAndPassword crypto (Admin.Password admin) pw
              then (ginError StatusUnauthorized ''Invalid credentials'', db)
              else case Encrypt crypto key
                     \<lparr>Subject = Hex (ID admin), IssuedAt = Clock env 0,
                      Expiration = Clock env 0 + 24 * Hour\<rparr> ''pitipaw-admin'' of
                   None \<Rightarrow> (ginError StatusInternalServerError ''Failed to generate token'', db)
                 | Some token \<Rightarrow>
                     (WriteJSON StatusOK
                        (JObject [(''message'', JString ''Login successful''),
                                  (''admin'', Admin_json (admin\<lparr>Admin.Password := []\<rparr>)),
                                  (''token'', JString token)]), db))"
    using f bind_login [OF assms(1,2)]
    by (simp add: login_def loginRequest_def Let_def split: option.splits)
  then show "Controller_Login crypto key env db (Decoded (loginRequest (Admin.Username admin) pw))
           = login crypto key env db (Decoded (loginRequest (Admin.Username admin) pw))"
    using f bind_login [OF assms(1,2)]
    by (simp add: Controller_Login_def loginRequest_def Let_def split: option.splits)
qed

lemma loginAdmin_unknown:
  assumes "u \<noteq> []" and "pw \<noteq> []"
    and "\<forall>a\<in>set (PureDB.admins pdb). PureAdmin.Username a \<noteq> u"
  shows "loginAdmin crypto env pdb (Decoded (loginInput u pw))
           = (writeError StatusUnauthorized ''Username/password salah'', pdb)"
proof -
  obtain err where "FindOne (DBErr env 0) (\<lambda>a. PureAdmin.Username a = u) (PureDB.admins pdb)
      = Inl err"
    using FindOne_absent [of "PureDB.admins pdb" "\<lambda>a. PureAdmin.Username a = u"] assms(3)
    by blast
  then show ?thesis
    using assms(1,2) by (simp add: loginAdmin_def loginInput_def)
qed

lemma loginAdmin_known:
  assumes "PureAdmin.Username admin \<noteq> []" and "pw \<noteq> []" and "DBErr env 0 = None"
    and "admin \<in> set (PureDB.admins pdb)" and "storedWithUsernamePure (PureAdmin.Username admin) (PureDB.admins pdb) = 1"
  shows "loginAdmin crypto env pdb (Decoded (loginInput (PureAdmin.Username admin) pw))
           = (if \<not> CompareHashAndPassword crypto (PureAdmin.Password admin) pw
              then (writeError StatusUnauthorized ''Username/password salah'', pdb)
              else (WriteJSON StatusOK
                      (JObject [(''message'', JString ''Login berhasil''),
                                (''admin'',
                                   JObject [(''username'', JString (PureAdmin.Username admin))])]),
                    pdb))"
proof -
  have f: "FindOne (DBErr env 0) (\<lambda>a. PureAdmin.Username a = PureAdmin.Username admin)
             (PureDB.admins pdb) = Inr admin"
    using assms(3) find_unique [OF assms(4), of "PureAdmin.Username"] assms(5)
    by (simp add: FindOne_def storedWithUsernamePure_def)
  then show ?thesis
    using assms(1,2) by (simp add: loginAdmin_def loginInput_def)
qed


lemma login_stripped: "passwordStripped (fst (login crypto key env db body))"
  by (auto simp: passwordStripped_def login_def Let_def ginError_def Admin_json_def
        split: sum.splits DBError.splits option.splits)

lemma Controller_Login_stripped: "passwordStripped (fst (Controller_Login crypto key env db body))"
  by (auto simp: passwordStripped_def Controller_Login_def Let_def ginError_def Admin_json_def
        split: sum.splits option.splits)

lemma loginAdmin_stripped: "passwordValues (responseBody (fst (loginAdmin crypto env pdb body))) = []"
  by (auto simp: loginAdmin_def Let_def writeError_def Response_json_def omitempty_def
        split: sum.splits option.splits Body.splits)

text \<open>
  C4, as the code has it, for \<open>login\<close> (main.go), \<open>Controller.Login\<close> and
  \<open>loginAdmin\<close> (main-pure.go). With a user name and a password that are not empty and a
  lookup that goes through: a user name that no admin has: 401. A stored admin who is the
  only one with its user name, and a password that the stored hash does not accept: 401.
  The same admin and a password that the stored hash accepts: 200 (in \<open>login\<close> and
  \<open>Controller.Login\<close> when the token is issued), with a body made of the admin without
  its password, and the token. With a user name or a password that is empty: 400, in the
  three handlers, whatever is stored. Whatever the request, the admins collection is left
  as it was and a key \<open>password\<close> of the response is absent or empty.
\<close>

theorem login_outcomes:
  "(u \<noteq> [] \<and> pw \<noteq> [] \<and> DBErr env 0 = None
      \<and> (\<forall>a\<in>set (DB.admins db). Admin.Username a \<noteq> u) \<longrightarrow>
        login crypto key env db (Decoded (loginRequest u pw))
          = (ginError StatusUnauthorized ''Invalid credentials'', db)
        \<and> Controller_Login crypto key env db (Decoded (loginRequest u pw))
          = (ginError StatusUnauthorized ''Invalid credentials'', db))
   \<and> (Admin.Username admin \<noteq> [] \<and> pw \<noteq> [] \<and> DBErr env 0 = None
      \<and> admin \<in> set (DB.admins db) \<and> storedWithUsername (Admin.Username admin) (DB.admins db) = 1
      \<and> \<not> CompareHashAndPassword crypto (Admin.Password admin) pw \<longrightarrow>
        login crypto key env db (Decoded (loginRequest (Admin.Username admin) pw))
          = (ginError StatusUnauthorized ''Invalid credentials'', db)
        \<and> Controller_Login crypto key env db (Decoded (loginRequest (Admin.Username admin) pw))
          = (ginError StatusUnauthorized ''Invalid credentials'', db))
   \<and> (Admin.Username admin \<noteq> [] \<and> pw \<noteq> [] \<and> DBErr env 0 = None
      \<and> admin \<in> set (DB.admins db) \<and> storedWithUsername (Admin.Username admin) (DB.admins db) = 1
      \<and> CompareHashAndPassword crypto (Admin.Password admin) pw
      \<and> Encrypt crypto key \<lparr>Subject = Hex (ID admin), IssuedAt = Clock env 0,
                               Expiration = Clock env 0 + 24 * Hour\<rparr> ''pitipaw-admin''
          = Some token \<longrightarrow>
        login crypto key env db (Decoded (loginRequest (Admin.Username admin) pw))
          = (WriteJSON StatusOK
               (JObject [(''message'', JString ''Login successful''),
                         (''admin'', Admin_json (admin\<lparr>Admin.Password := []\<rparr>)),
                         (''token'', JString token)]), db)
        \<and> Controller_Login crypto key env db (Decoded (loginRequest (Admin.Username admin) pw))
          = (WriteJSON StatusOK
               (JObject [(''message'', JString ''Login successful''),
                         (''admin'', Admin_json (admin\<lparr>Admin.Password := []\<rparr>)),
                         (''token'', JString token)]), db))
   \<and> (u \<noteq> [] \<and> pw \<noteq> []
      \<and> (\<forall>a\<in>set (PureDB.admins pdb). PureAdmin.Username a \<noteq> u) \<longrightarrow>
        loginAdmin crypto env pdb (Decoded (loginInput u pw))
          = (writeError StatusUnauthorized ''Username/password salah'', pdb))
   \<and> (PureAdmin.Username padmin \<noteq> [] \<and> pw \<noteq> [] \<and> DBErr env 0 = None
      \<and> padmin \<in> set (PureDB.admins pdb) \<and> storedWithUsernamePure (PureAdmin.Username padmin) (PureDB.admins pdb) = 1
      \<and> \<not> CompareHashAndPassword crypto (PureAdmin.Password padmin) pw \<longrightarrow>
        loginAdmin crypto env pdb (Decoded (loginInput (PureAdmin.Username padmin) pw))
          = (writeError StatusUnauthorized ''Username/password salah'', pdb))
   \<and> (PureAdmin.Username padmin \<noteq> [] \<and> pw \<noteq> [] \<and> DBErr env 0 = None
      \<and> padmin \<in> set (PureDB.admins pdb) \<and> storedWithUsernamePure (PureAdmin.Username padmin) (PureDB.admins pdb) = 1
      \<and> CompareHashAndPassword crypto (PureAdmin.Password padmin) pw \<longrightarrow>
        loginAdmin crypto env pdb (Decoded (loginInput (PureAdmin.Username padmin) pw))
          = (WriteJSON StatusOK
               (JObject [(''message'', JString ''Login berhasil''),
                         (''admin'',
                            JObject [(''username'', JString (PureAdmin.Username padmin))])]),
             pdb))
   \<and> (u = [] \<or> pw = [] \<longrightarrow>
        statusOf (fst (login crypto key env db (Decoded (loginRequest u pw))))
          = Some StatusBadRequest
        \<and> statusOf (fst (Controller_Login crypto key env db (Decoded (loginRequest u pw))))
          = Some StatusBadRequest
        \<and> loginAdmin crypto env pdb (Decoded (loginInput u pw))
          = (writeError StatusBadRequest ''Username dan password wajib diisi'', pdb))
   \<and> snd (login crypto key env db body) = db
   \<and> snd (Controller_Login crypto key env db body) = db
   \<and> snd (loginAdmin crypto env pdb pbody) = pdb
   \<and> passwordStripped (fst (login crypto key env db body))
   \<and> passwordStripped (fst (Controller_Login crypto key env db body))
   \<and> passwordValues (responseBody (fst (loginAdmin crypto env pdb pbody))) = []"
proof -
  have known: "login crypto key env db (Decoded (loginRequest (Admin.Username admin) pw))
      = (ginError StatusUnauthorized ''Invalid credentials'', db)
    \<and> Controller_Login crypto key env db (Decoded (loginRequest (Admin.Username admin) pw))
      = (ginError StatusUnauthorized ''Invalid credentials'', db)"
    if "Admin.Username admin \<noteq> []" "pw \<noteq> []" "DBErr env 0 = None"
      "admin \<in> set (DB.admins db)" "storedWithUsername (Admin.Username admin) (DB.admins db) = 1"
      "\<not> CompareHashAndPassword crypto (Admin.Password admin) pw"
    using login_known [OF that(1-5), of crypto key] that(6) by simp
  have ok: "login crypto key env db (Decoded (loginRequest (Admin.Username admin) pw))
      = (WriteJSON StatusOK
               (JObject [(''message'', JString ''Login successful''),
                         (''admin'', Admin_json (admin\<lparr>Admin.Password := []\<rparr>)),
                         (''token'', JString token)]), db)
    \<and> Controller_Login crypto key env db (Decoded (loginRequest (Admin.Username admin) pw))
      = (WriteJSON StatusOK
               (JObject [(''message'', JString ''Login successful''),
                         (''admin'', Admin_json (admin\<lparr>Admin.Password := []\<rparr>)),
                         (''token'', JString token)]), db)"
    if "Admin.Username admin \<noteq> []" "pw \<noteq> []" "DBErr env 0 = None"
      "admin \<in> set (DB.admins db)" "storedWithUsername (Admin.Username admin) (DB.admins db) = 1"
      "CompareHashAndPassword crypto (Admin.Password admin) pw"
      "Encrypt crypto key \<lparr>Subject = Hex (ID admin), IssuedAt = Clock env 0,
                               Expiration = Clock env 0 + 24 * Hour\<rparr> ''pitipaw-admin''
          = Some token"
    using login_known [OF that(1-5), of crypto key] that(6,7) by simp
  have pknown: "loginAdmin crypto env pdb (Decoded (loginInput (PureAdmin.Username padmin) pw))
          = (writeError StatusUnauthorized ''Username/password salah'', pdb)"
    if "PureAdmin.Username padmin \<noteq> []" "pw \<noteq> []" "DBErr env 0 = None"
      "padmin \<in> set (PureDB.admins pdb)" "storedWithUsernamePure (PureAdmin.Username padmin) (PureDB.admins pdb) = 1"
      "\<not> CompareHashAndPassword crypto (PureAdmin.Password padmin) pw"
    using loginAdmin_known [OF that(1-5), of crypto] that(6) by simp
  have pok: "loginAdmin crypto env pdb (Decoded (loginInput (PureAdmin.Username padmin) pw))
          = (WriteJSON StatusOK
               (JObject [(''message'', JString ''Login berhasil''),
                         (''admin'',
                            JObject [(''username'', JString (PureAdmin.Username padmin))])]),
             pdb)"
    if "PureAdmin.Username padmin \<noteq> []" "pw \<noteq> []" "DBErr env 0 = None"
      "padmin \<in> set (PureDB.admins pdb)" "storedWithUsernamePure (PureAdmin.Username padmin) (PureDB.admins pdb) = 1"
      "CompareHashAndPassword crypto (PureAdmin.Password padmin) pw"
    using loginAdmin_known [OF that(1-5), of crypto] that(6) by simp
  have empty: "statusOf (fst (login crypto key env db (Decoded (loginRequest u pw))))
          = Some StatusBadRequest
        \<and> statusOf (fst (Controller_Login crypto key env db (Decoded (loginRequest u pw))))
          = Some StatusBadRequest
        \<and> loginAdmin crypto env pdb (Decoded (loginInput u pw))
          = (writeError StatusBadRequest ''Username dan password wajib diisi'', pdb)"
    if "u = [] \<or> pw = []"
    using login_empty [OF that] by simp
  show ?thesis
    using login_unknown [of u pw env db crypto key] known ok
      loginAdmin_unknown [of u pw pdb crypto env] pknown pok
      empty
      login_db_unchanged [of crypto key env db body]
      Controller_Login_db_unchanged [of crypto key env db body]
      loginAdmin_db_unchanged [of crypto env pdb pbody]
      login_stripped [of crypto key env db body]
      Controller_Login_stripped [of crypto key env db body]
      loginAdmin_stripped [of crypto env pdb pbody]
    by blast
qed


lemma toy_compare:
  "CompareHashAndPassword toyCrypto ''$toy$NaCl$wp'' ''pw''"
  "\<not> CompareHashAndPassword toyCrypto ''$toy$NaCl$wp'' ''nope''"
  "CompareHashAndPassword toyCrypto ''$toy$NaCl$rehto'' ''other''"
  "\<not> CompareHashAndPassword toyCrypto ''$toy$NaCl$terces'' ''other''"
  by (simp_all add: toyCrypto_def)

theorem login_outcomes_witness:
  "DBErr env1 0 = None \<and> DB.admins aliceDB = [aliceAdmin] \<and> PureDB.admins alicePureDB = [alicePureAdmin]
   \<and> CompareHashAndPassword toyCrypto (Admin.Password aliceAdmin) ''pw''
   \<and> \<not> CompareHashAndPassword toyCrypto (Admin.Password aliceAdmin) ''nope''
   \<and> login toyCrypto key32 env1 aliceDB (Decoded (loginRequest ''mallory'' ''pw''))
       = (WriteJSON 401 (JObject [(''error'', JString ''Invalid credentials'')]), aliceDB)
   \<and> Controller_Login toyCrypto key32 env1 aliceDB (Decoded (loginRequest ''alice'' ''nope''))
       = (WriteJSON 401 (JObject [(''error'', JString ''Invalid credentials'')]), aliceDB)
   \<and> login toyCrypto key32 env1 aliceDB (Decoded (loginRequest ''alice'' ''pw''))
       = (WriteJSON 200
            (JObject [(''message'', JString ''Login successful''),
                      (''admin'',
                         JObject [(''id'', JString ''65a000000000000000000001''),
                                  (''username'', JString ''alice''),
                                  (''email'', JString ''a@x.com''),
                                  (''password'', JString []),
                                  (''created_at'', JInt 1700000000000000000)]),
                      (''token'',
                         JString ''v2.local.65a000000000000000000001.pitipaw-admin'')]),
          aliceDB)
   \<and> loginAdmin toyCrypto env1 alicePureDB (Decoded (loginInput ''alice'' ''nope''))
       = (WriteJSON 401 (JObject [(''error'', JString ''Username/password salah'')]), alicePureDB)
   \<and> loginAdmin toyCrypto env1 alicePureDB (Decoded (loginInput ''alice'' ''pw''))
       = (WriteJSON 200
            (JObject [(''message'', JString ''Login berhasil''),
                      (''admin'', JObject [(''username'', JString ''alice'')])]),
          alicePureDB)
   \<and> statusOf (fst (login toyCrypto key32 env1 aliceDB (Decoded (loginRequest ''alice'' []))))
       = Some 400
   \<and> statusOf (fst (Controller_Login toyCrypto key32 env1 aliceDB
                       (Decoded (loginRequest [] ''pw''))))
       = Some 400
   \<and> loginAdmin toyCrypto env1 alicePureDB (Decoded (loginInput ''alice'' []))
       = (WriteJSON 400 (JObject [(''error'', JString ''Username dan password wajib diisi'')]),
          alicePureDB)"
proof -
  have e: "DBErr env1 0 = None"
    by (simp add: env1_def env0_def)
  have t: "Encrypt toyCrypto key32
             \<lparr>Subject = Hex (ID aliceAdmin), IssuedAt = Clock env1 0,
              Expiration = Clock env1 0 + 24 * Hour\<rparr> ''pitipaw-admin''
           = Some ''v2.local.65a000000000000000000001.pitipaw-admin''"
    by (simp add: toyCrypto_def key32_def aliceAdmin_def)
  have c: "CompareHashAndPassword toyCrypto (Admin.Password aliceAdmin) ''pw''"
    "\<not> CompareHashAndPassword toyCrypto (Admin.Password aliceAdmin) ''nope''"
    "CompareHashAndPassword toyCrypto (PureAdmin.Password alicePureAdmin) ''pw''"
    "\<not> CompareHashAndPassword toyCrypto (PureAdmin.Password alicePureAdmin) ''nope''"
    using toy_compare by (simp_all add: aliceAdmin_def alicePureAdmin_def)
  have n: "Admin.Username aliceAdmin = ''alice''" "PureAdmin.Username alicePureAdmin = ''alice''"
    by (simp_all add: aliceAdmin_def alicePureAdmin_def)
  from login_outcomes [of "''mallory''" "''pw''" env1 aliceDB toyCrypto key32 aliceAdmin
      "''v2.local.65a000000000000000000001.pitipaw-admin''" alicePureDB alicePureAdmin]
    login_outcomes [of "''mallory''" "''nope''" env1 aliceDB toyCrypto key32 aliceAdmin
      "''v2.local.65a000000000000000000001.pitipaw-admin''" alicePureDB alicePureAdmin]
    login_outcomes [of "''alice''" "[]" env1 aliceDB toyCrypto key32 aliceAdmin
      "''v2.local.65a000000000000000000001.pitipaw-admin''" alicePureDB alicePureAdmin]
    login_outcomes [of "[]" "''pw''" env1 aliceDB toyCrypto key32 aliceAdmin
      "''v2.local.65a000000000000000000001.pitipaw-admin''" alicePureDB alicePureAdmin]
    e t c n
  show ?thesis
    by (simp add: aliceDB_eq alicePureDB_eq ginError_def writeError_def Response_json_def
          omitempty_def Status_defs storedWithUsername_def storedWithUsernamePure_def)
       (simp add: aliceAdmin_def Admin_json_def)
qed

text \<open>
  C4 as stated fails. An empty password is an incorrect password, and \<open>loginAdmin\<close> and
  \<open>login\<close> answer it with 400. And of two admins stored under one user name (as
  \<open>Controller.CreateAdmin\<close> allows), the second cannot log in with the password its hash
  accepts: the lookup finds the first, and the answer is 401.
\<close>

theorem login_counterexample:
  "PureDB.admins alicePureDB = [alicePureAdmin]
   \<and> statusOf (fst (loginAdmin toyCrypto env1 alicePureDB (Decoded (loginInput ''alice'' []))))
       = Some 400
   \<and> statusOf (fst (login toyCrypto key32 env1 aliceDB (Decoded (loginRequest ''alice'' []))))
       = Some 400
   \<and> map Admin.Username (DB.admins twoBobsDB) = [''bob'', ''bob'']
   \<and> map Admin.Password (DB.admins twoBobsDB) = [''$toy$NaCl$terces'', ''$toy$NaCl$rehto'']
   \<and> CompareHashAndPassword toyCrypto ''$toy$NaCl$rehto'' ''other''
   \<and> statusOf (fst (Controller_Login toyCrypto key32 env1 twoBobsDB
         (Decoded (loginRequest ''bob'' ''other'')))) = Some 401"
  using toy_compare
  by (simp add: alicePureDB_eq aliceDB_eq twoBobsDB_eq loginAdmin_def login_def
        Controller_Login_def loginInput_def loginRequest_def ShouldBindJSON_def
        LoginRequest_required_def FindOne_def env1_def env0_def Let_def writeError_def
        ginError_def Status_defs)


lemma login_token_aux:
  assumes "statusOf (fst (login crypto key env db body)) = Some StatusOK"
  shows "\<exists>req admin token.
           body = Decoded req
           \<and> find (\<lambda>a. Admin.Username a = LoginRequest.Username req) (DB.admins db) = Some admin
           \<and> Encrypt crypto key
                \<lparr>Subject = Hex (ID admin), IssuedAt = Clock env 0,
                 Expiration = Clock env 0 + 24 * 3600 * 1000000000\<rparr> ''pitipaw-admin''
               = Some token
           \<and> fst (login crypto key env db body)
               = WriteJSON StatusOK
                   (JObject [(''message'', JString ''Login successful''),
                             (''admin'', Admin_json (admin\<lparr>Admin.Password := []\<rparr>)),
                             (''token'', JString token)])"
  using assms
  by (cases body)
     (auto simp: login_def ShouldBindJSON_def FindOne_def Let_def Hour_def ginError_def
        Status_defs split: sum.splits DBError.splits option.splits if_splits)

lemma Controller_Login_token_aux:
  assumes "statusOf (fst (Controller_Login crypto key env db body)) = Some StatusOK"
  shows "\<exists>req admin token.
           body = Decoded req
           \<and> find (\<lambda>a. Admin.Username a = LoginRequest.Username req) (DB.admins db) = Some admin
           \<and> Encrypt crypto key
                \<lparr>Subject = Hex (ID admin), IssuedAt = Clock env 0,
                 Expiration = Clock env 0 + 24 * 3600 * 1000000000\<rparr> ''pitipaw-admin''
               = Some token
           \<and> fst (Controller_Login crypto key env db body)
               = WriteJSON StatusOK
                   (JObject [(''message'', JString ''Login successful''),
                             (''admin'', Admin_json (admin\<lparr>Admin.Password := []\<rparr>)),
                             (''token'', JString token)])"
  using assms
  by (cases body)
     (auto simp: Controller_Login_def ShouldBindJSON_def FindOne_def Let_def Hour_def ginError_def
        Status_defs split: sum.splits option.splits if_splits)

text \<open>
  C5. The server runs with a secret of 32 bytes. Every login that \<open>login\<close> (main.go) or
  \<open>Controller.Login\<close> answers with 200 returns the token that \<open>paseto.NewV2().Encrypt\<close>
  made from that secret, from the payload whose subject is the hexadecimal id of the
  admin found under the user name, whose issue time is the time of the login and whose
  expiry is 24 hours (86400 seconds, in nanoseconds) later, and from one fixed context
  string, passed as the footer of the token: the literal \<open>pitipaw-admin\<close>.
\<close>

theorem login_token:
  "(loadPasetoSecretKey configured = Some key
      \<and> statusOf (fst (login crypto key env db body)) = Some StatusOK \<longrightarrow>
      length key = 32
      \<and> (\<exists>req admin token.
           body = Decoded req
           \<and> find (\<lambda>a. Admin.Username a = LoginRequest.Username req) (DB.admins db) = Some admin
           \<and> Encrypt crypto key
                \<lparr>Subject = Hex (ID admin), IssuedAt = Clock env 0,
                 Expiration = Clock env 0 + 24 * 3600 * 1000000000\<rparr> ''pitipaw-admin''
               = Some token
           \<and> fst (login crypto key env db body)
               = WriteJSON StatusOK
                   (JObject [(''message'', JString ''Login successful''),
                             (''admin'', Admin_json (admin\<lparr>Admin.Password := []\<rparr>)),
                             (''token'', JString token)])))
   \<and> (loadPasetoSecretKey configured = Some key
      \<and> statusOf (fst (Controller_Login crypto key env db body)) = Some StatusOK \<longrightarrow>
      length key = 32
      \<and> (\<exists>req admin token.
           body = Decoded req
           \<and> find (\<lambda>a. Admin.Username a = LoginRequest.Username req) (DB.admins db) = Some admin
           \<and> Encrypt crypto key
                \<lparr>Subject = Hex (ID admin), IssuedAt = Clock env 0,
                 Expiration = Clock env 0 + 24 * 3600 * 1000000000\<rparr> ''pitipaw-admin''
               = Some token
           \<and> fst (Controller_Login crypto key env db body)
               = WriteJSON StatusOK
                   (JObject [(''message'', JString ''Login successful''),
                             (''admin'', Admin_json (admin\<lparr>Admin.Password := []\<rparr>)),
                             (''token'', JString token)])))"
proof -
  have "length key = 32" if "loadPasetoSecretKey configured = Some key"
    using that by (simp add: loadPasetoSecretKey_def split: if_splits)
  then show ?thesis
    using login_token_aux [of crypto key env db body]
      Controller_Login_token_aux [of crypto key env db body]
    by blast
qed

theorem login_token_witness:
  "loadPasetoSecretKey key32 = Some key32
   \<and> statusOf (fst (login toyCrypto key32 env1 aliceDB (Decoded (loginRequest ''alice'' ''pw''))))
       = Some StatusOK
   \<and> statusOf (fst (Controller_Login toyCrypto key32 env1 aliceDB
         (Decoded (loginRequest ''alice'' ''pw'')))) = Some StatusOK
   \<and> length key32 = 32
   \<and> fst (login toyCrypto key32 env1 aliceDB (Decoded (loginRequest ''alice'' ''pw'')))
       = WriteJSON 200
           (JObject [(''message'', JString ''Login successful''),
                     (''admin'', Admin_json (aliceAdmin\<lparr>Admin.Password := []\<rparr>)),
                     (''token'', JString ''v2.local.65a000000000000000000001.pitipaw-admin'')])"
  using login_token [of key32 key32 toyCrypto env1 aliceDB
      "Decoded (loginRequest ''alice'' ''pw'')"] toy_compare
  by (simp add: loadPasetoSecretKey_def key32_def login_def Controller_Login_def aliceDB_eq
        aliceAdmin_def loginRequest_def ShouldBindJSON_def LoginRequest_required_def FindOne_def
        toyCrypto_def env1_def env0_def Let_def Status_defs)

text \<open>
  Registration followed by login, for any bcrypt whose comparison accepts the hashes it
  generates: the admin that \<open>register\<close> stored logs in with the registered password.
\<close>

lemma register_then_login:
  assumes sound: "\<And>salt pw h. GenerateFromPassword crypto salt pw = Some h
                    \<Longrightarrow> CompareHashAndPassword crypto h pw"
    and valid: "validRegisterRequest req"
    and fresh: "\<forall>a\<in>set (DB.admins db). Admin.Username a \<noteq> RegisterRequest.Username req"
    and hash: "GenerateFromPassword crypto (Salt env) (RegisterRequest.Password req) = Some h"
    and ins: "DBErr env 1 = None" "NewID env \<notin> ID ` set (DB.admins db)"
    and look: "DBErr env' 0 = None"
    and tok: "Encrypt crypto key
                \<lparr>Subject = Hex (NewID env), IssuedAt = Clock env' 0,
                 Expiration = Clock env' 0 + 24 * Hour\<rparr> ''pitipaw-admin'' = Some token"
  shows "fst (login crypto key env' (snd (register crypto env db (Decoded req)))
                (Decoded (loginRequest (RegisterRequest.Username req)
                            (RegisterRequest.Password req))))
           = WriteJSON StatusOK
               (JObject [(''message'', JString ''Login successful''),
                         (''admin'',
                            Admin_json \<lparr>ID = NewID env,
                               Admin.Username = RegisterRequest.Username req,
                               Admin.Email = RegisterRequest.Email req,
                               Admin.Password = [],
                               Admin.CreatedAt = Clock env 0\<rparr>),
                         (''token'', JString token)])"
proof -
  let ?a = "\<lparr>ID = NewID env, Admin.Username = RegisterRequest.Username req,
             Admin.Email = RegisterRequest.Email req, Admin.Password = h,
             Admin.CreatedAt = Clock env 0\<rparr>"
  let ?db1 = "snd (register crypto env db (Decoded req))"
  have db1: "DB.admins ?db1 = DB.admins db @ [?a]"
    using register_created [OF valid fresh hash ins] by simp
  have one: "storedWithUsername (Admin.Username ?a) (DB.admins ?db1) = 1"
    using fresh by (simp add: db1 storedWithUsername_def filter_empty_conv [THEN iffD2])
  have mem: "?a \<in> set (DB.admins ?db1)"
    by (simp add: db1)
  have ne: "Admin.Username ?a \<noteq> []" "RegisterRequest.Password req \<noteq> []"
    using valid by (simp_all add: validRegisterRequest_def)
  have cmp: "CompareHashAndPassword crypto (Admin.Password ?a) (RegisterRequest.Password req)"
    using sound [OF hash] by simp
  from login_known(1) [OF ne look mem one, of crypto key] cmp tok show ?thesis
    by simp
qed

section \<open>Properties: statistics and database failures\<close>

lemmas stats_defs =
  CountDocuments_def Aggregate_def cursor_Next_def cursor_All_ctx_def cursor_All_def
  cursor_Close_def totalOf_def Stats_json_def Let_def

lemma getStats_report:
  assumes "DBErr env 2 = None"
  shows "fst (getStats env db)
           = WriteJSON StatusOK
               (JObject [(''stats'',
                  JObject [(''total_products'',
                              JInt (if DBErr env 0 = None then int (length (DB.products db)) else 0)),
                           (''total_admins'',
                              JInt (if DBErr env 1 = None then int (length (DB.admins db)) else 0)),
                           (''total_value'',
                              JNumber (if DBErr env 3 = None
                                       then \<Sum>p\<leftarrow>DB.products db.
                                              Product.Price p * real_of_int (Stock p)
                                       else 0))])])"
  using assms
  by (auto simp: getStats_def stats_defs split: option.splits)

lemma Controller_GetStats_report:
  assumes "DBErr env 2 = None"
  shows "fst (Controller_GetStats rereads env db)
           = WriteJSON StatusOK
               (JObject [(''stats'',
                  JObject [(''total_products'',
                              JInt (if DBErr env 0 = None then int (length (DB.products db)) else 0)),
                           (''total_admins'',
                              JInt (if DBErr env 1 = None then int (length (DB.admins db)) else 0)),
                           (''total_value'',
                              JNumber (if rereads \<and> DBErr env 3 = None \<and> DBErr env 4 = None
                                       then \<Sum>p\<leftarrow>DB.products db.
                                              Product.Price p * real_of_int (Stock p)
                                       else 0))])])"
  using assms
  by (auto simp: Controller_GetStats_def stats_defs split: option.splits)

lemma statsHandler_report:
  assumes "DBErr env 0 = None" and "DBErr env 1 = None"
  shows "fst (statsHandler env pdb ''GET'')
           = WriteJSON StatusOK
               (JObject [(''total_products'', JInt (int (length (PureDB.products pdb)))),
                         (''total_admins'', JInt (int (length (PureDB.admins pdb)))),
                         (''status'', JString ''ok'')])"
  using assms by (simp add: statsHandler_def CountDocuments_def Let_def)








text \<open>
  C8, as the code has it, when no driver call fails. \<open>getStats\<close> (main.go, part 006)
  reports the number of product documents, the number of admin documents and the sum of
  price times stock over the products. \<open>statsHandler\<close> (main-pure.go) reports the two
  counts and the status \<open>ok\<close>, and no total. \<open>Controller.GetStats\<close> reports the two
  counts and a total value, which is the sum of price times stock when \<open>cursor.All\<close>
  after \<open>cursor.Next\<close> returns the document the cursor has passed, and 0 when it leaves
  that document out.
\<close>

theorem stats_report:
  "(DBErr env = (\<lambda>n. None) \<longrightarrow>
      fst (getStats env db)
        = WriteJSON StatusOK
            (JObject [(''stats'',
               JObject [(''total_products'', JInt (int (length (DB.products db)))),
                        (''total_admins'', JInt (int (length (DB.admins db)))),
                        (''total_value'',
                           JNumber (\<Sum>p\<leftarrow>DB.products db.
                                      Product.Price p * real_of_int (Stock p)))])]))
   \<and> (DBErr env = (\<lambda>n. None) \<longrightarrow>
      fst (statsHandler env pdb ''GET'')
        = WriteJSON StatusOK
            (JObject [(''total_products'', JInt (int (length (PureDB.products pdb)))),
                      (''total_admins'', JInt (int (length (PureDB.admins pdb)))),
                      (''status'', JString ''ok'')]))
   \<and> (DBErr env = (\<lambda>n. None) \<longrightarrow>
      fst (Controller_GetStats rereads env db)
        = WriteJSON StatusOK
            (JObject [(''stats'',
               JObject [(''total_products'', JInt (int (length (DB.products db)))),
                        (''total_admins'', JInt (int (length (DB.admins db)))),
                        (''total_value'',
                           JNumber (if rereads
                                    then \<Sum>p\<leftarrow>DB.products db.
                                           Product.Price p * real_of_int (Stock p)
                                    else 0))])]))"
proof -
  have "DBErr env 0 = None \<and> DBErr env 1 = None \<and> DBErr env 2 = None \<and> DBErr env 3 = None
        \<and> DBErr env 4 = None"
    if "DBErr env = (\<lambda>n. None)"
    using that by simp
  then show ?thesis
    using getStats_report [of env db] statsHandler_report [of env pdb]
      Controller_GetStats_report [where env = env and db = db and rereads = rereads]
    by auto
qed

theorem stats_report_witness:
  "DBErr env0 = (\<lambda>n. None)
   \<and> fst (getStats env0 shopDB)
       = WriteJSON 200
           (JObject [(''stats'',
              JObject [(''total_products'', JInt 2), (''total_admins'', JInt 1),
                       (''total_value'', JNumber 40)])])
   \<and> fst (statsHandler env0 shopPureDB ''GET'')
       = WriteJSON 200
           (JObject [(''total_products'', JInt 1), (''total_admins'', JInt 1),
                     (''status'', JString ''ok'')])
   \<and> fst (Controller_GetStats True env0 shopDB)
       = WriteJSON 200
           (JObject [(''stats'',
              JObject [(''total_products'', JInt 2), (''total_admins'', JInt 1),
                       (''total_value'', JNumber 40)])])
   \<and> fst (Controller_GetStats False env0 shopDB)
       = WriteJSON 200
           (JObject [(''stats'',
              JObject [(''total_products'', JInt 2), (''total_admins'', JInt 1),
                       (''total_value'', JNumber 0)])])"
proof -
  have e: "DBErr env0 = (\<lambda>n. None)"
    by (simp add: env0_def)
  from stats_report [where env = env0 and db = shopDB and pdb = shopPureDB and rereads = False]
    stats_report [where env = env0 and db = shopDB and pdb = shopPureDB and rereads = True] e
  show ?thesis
    by (simp add: shopDB_def shopPureDB_def blankProduct_def Status_defs)
qed

text \<open>
  C8 as stated fails for \<open>statsHandler\<close>: with one product of price 2.5 in the collection
  the response holds the two counts and the status, and no sum.
\<close>

theorem stats_pure_counterexample:
  "map PureProduct.Price (PureDB.products shopPureDB) = [2.5]
   \<and> fst (statsHandler env0 shopPureDB ''GET'')
       = WriteJSON 200
           (JObject [(''total_products'', JInt 1), (''total_admins'', JInt 1),
                     (''status'', JString ''ok'')])"
  by (simp add: statsHandler_def shopPureDB_def env0_def CountDocuments_def Let_def Status_defs)













end
